theory Spec2Isabelle
  imports Main "HOL-Library.Sublist" "HOL-Library.Log_Nat" "HOL-Library.Multiset"
begin

section \<open>Python values, strings and floats\<close>

text \<open>
  The exceptions the modelled functions can raise. A function that can raise returns
  \<open>exn + 'a\<close>, with \<open>Inl\<close> the exception.
\<close>

datatype exn =
  TypeError | ValueError | IndexError | KeyError | AttributeError | NameError
  | OverflowError | DataError

text \<open>
  Sequencing: the rest of the function runs on the value of a call that did not raise;
  an exception propagates.
\<close>

definition and_then :: "exn + 'a \<Rightarrow> ('a \<Rightarrow> exn + 'b) \<Rightarrow> exn + 'b" where
  "and_then r k = (case r of Inl e \<Rightarrow> Inl e | Inr v \<Rightarrow> k v)"

text \<open>\<open>xs[i]\<close> for a non-negative literal index.\<close>

definition idx :: "'a list \<Rightarrow> nat \<Rightarrow> exn + 'a" where
  "idx xs i = (if i < length xs then Inr (xs ! i) else Inl IndexError)"

subsection \<open>Strings\<close>

text \<open>
  Strings are lists of 8-bit characters. \<open>str.strip()\<close> removes the ASCII characters
  for which \<open>str.isspace\<close> holds; \<open>str.strip(chars)\<close> removes the given characters.
\<close>

definition is_space :: "char \<Rightarrow> bool" where
  "is_space c = (c \<in> set [CHR 0x09, CHR 0x0A, CHR 0x0B, CHR 0x0C, CHR 0x0D,
                            CHR 0x1C, CHR 0x1D, CHR 0x1E, CHR 0x1F, CHR 0x20])"

definition strip_with :: "(char \<Rightarrow> bool) \<Rightarrow> string \<Rightarrow> string" where
  "strip_with p s = rev (dropWhile p (rev (dropWhile p s)))"

definition strip :: "string \<Rightarrow> string" where
  "strip s = strip_with is_space s"

definition strip_chars :: "string \<Rightarrow> string \<Rightarrow> string" where
  "strip_chars cs s = strip_with (\<lambda>c. c \<in> set cs) s"

text \<open>\<open>sub in s\<close>: \<open>sub\<close> occurs in \<open>s\<close> as a contiguous block.\<close>

fun contains :: "string \<Rightarrow> string \<Rightarrow> bool" where
  "contains sub [] = (sub = [])"
| "contains sub (c # cs) = (prefix sub (c # cs) \<or> contains sub cs)"

text \<open>
  \<open>s.split(sep)\<close> for a separator string: the pieces between the occurrences of
  \<open>sep\<close>, found from the left; an empty separator raises ValueError.
\<close>

function split_from :: "string \<Rightarrow> string \<Rightarrow> string \<Rightarrow> string list" where
  "split_from sep acc [] = [rev acc]"
| "split_from sep acc (c # cs) =
     (if sep \<noteq> [] \<and> prefix sep (c # cs)
      then rev acc # split_from sep [] (drop (length sep) (c # cs))
      else split_from sep (c # acc) cs)"
  by pat_completeness auto
termination
  by (relation "measure (\<lambda>(sep, acc, s). length s)") auto

definition split :: "string \<Rightarrow> string \<Rightarrow> exn + string list" where
  "split sep s = (if sep = [] then Inl ValueError else Inr (split_from sep [] s))"

text \<open>\<open>s[0:n]\<close>; a negative \<open>n\<close> counts from the end.\<close>

definition slice0 :: "int \<Rightarrow> string \<Rightarrow> string" where
  "slice0 n s = (if 0 \<le> n then take (nat n) s else take (length s - nat (- n)) s)"

subsection \<open>int() and float() of a string\<close>

text \<open>
  \<open>int(s)\<close> and \<open>float(s)\<close> on plain decimal literals: surrounding white space,
  an optional sign, decimal digits and, for \<open>float\<close>, one decimal point. Underscores
  between digits, exponents, \<open>inf\<close> and \<open>nan\<close> are not part of the modelled grammar.
\<close>

definition digit_val :: "char \<Rightarrow> nat option" where
  "digit_val c =
     (let n = (of_char c :: nat) in if 48 \<le> n \<and> n \<le> 57 then Some (n - 48) else None)"

fun digits_val :: "nat \<Rightarrow> string \<Rightarrow> nat option" where
  "digits_val acc [] = Some acc"
| "digits_val acc (c # cs) =
     (case digit_val c of None \<Rightarrow> None | Some d \<Rightarrow> digits_val (10 * acc + d) cs)"

definition split_sign :: "string \<Rightarrow> bool \<times> string" where
  "split_sign t =
     (case t of
        [] \<Rightarrow> (False, t)
      | c # cs \<Rightarrow> if c = CHR ''-'' then (True, cs)
                  else if c = CHR ''+'' then (False, cs) else (False, t))"

definition py_int :: "string \<Rightarrow> exn + int" where
  "py_int s =
     (let (neg, body) = split_sign (strip s)
      in if body = [] then Inl ValueError
         else case digits_val 0 body of
                None \<Rightarrow> Inl ValueError
              | Some n \<Rightarrow> Inr (if neg then - int n else int n))"

text \<open>
  A float is the rational number it denotes. \<open>fl\<close> rounds a rational to the nearest
  number with a 53-bit significand, ties to even, as every binary64 operation rounds its
  exact result; the exponent range is not bounded here, so overflow to infinity and
  subnormal numbers are outside the model.
\<close>

definition pow2 :: "int \<Rightarrow> rat" where
  "pow2 e = (if 0 \<le> e then 2 ^ nat e else 1 / 2 ^ nat (- e))"

definition round_half_even :: "rat \<Rightarrow> int" where
  "round_half_even x =
     (let f = \<lfloor>x\<rfloor>; r = x - of_int f
      in if r < 1 / 2 then f else if 1 / 2 < r then f + 1
         else if even f then f else f + 1)"

text \<open>\<open>ilog2 x\<close> is the exponent \<open>e\<close> with \<open>2^e \<le> x < 2^(e+1)\<close>, for positive \<open>x\<close>.\<close>

definition ilog2 :: "rat \<Rightarrow> int" where
  "ilog2 x = (let (p, q) = quotient_of x; e = bitlen p - bitlen q
              in if pow2 e \<le> x then e else e - 1)"

definition fl :: "rat \<Rightarrow> rat" where
  "fl x = (if x = 0 then 0
           else let u = pow2 (ilog2 \<bar>x\<bar> - 52)
                in of_int (round_half_even (x / u)) * u)"

definition float_of_int :: "int \<Rightarrow> rat" where
  "float_of_int i = fl (of_int i)"

definition fadd :: "rat \<Rightarrow> rat \<Rightarrow> rat" where
  "fadd a b = fl (a + b)"

definition fsub :: "rat \<Rightarrow> rat \<Rightarrow> rat" where
  "fsub a b = fl (a - b)"

definition fmul :: "rat \<Rightarrow> rat \<Rightarrow> rat" where
  "fmul a b = fl (a * b)"

text \<open>Division is only used with the non-zero constants of the source.\<close>

definition fdiv :: "rat \<Rightarrow> rat \<Rightarrow> rat" where
  "fdiv a b = fl (a / b)"

definition py_float :: "string \<Rightarrow> exn + rat" where
  "py_float s =
     (let (neg, body) = split_sign (strip s);
          ip = takeWhile (\<lambda>c. c \<noteq> CHR ''.'') body;
          fp = drop 1 (dropWhile (\<lambda>c. c \<noteq> CHR ''.'') body)
      in if ip = [] \<and> fp = [] then Inl ValueError
         else case (digits_val 0 ip, digits_val 0 fp) of
                (Some a, Some b) \<Rightarrow>
                  (let v = of_nat a + of_nat b / 10 ^ length fp
                   in Inr (fl (if neg then - v else v)))
              | _ \<Rightarrow> Inl ValueError)"

section \<open>automator/util.py\<close>

subsection \<open>retry\<close>

text \<open>
  One call \<open>function(*args)\<close> either raises an exception or returns a value; it may
  change the world \<open>'s\<close> it runs in. \<open>truthy\<close> is Python's truth value of the returned
  object.

  \<open>retry\<close> loops over \<open>range(retries)\<close>, which is empty for \<open>retries \<le> 0\<close>. The call
  and the \<open>time.sleep(delay)\<close> after a falsy output are both inside the \<open>try\<close>: a
  negative delay makes \<open>time.sleep\<close> raise ValueError, which the handler catches like
  an exception of the function. The result records the value returned (\<open>None\<close> when the
  function falls off its end), the world after the last call, the number of calls made
  and the delays slept.
\<close>

datatype 'a outcome = Raises exn | Returns 'a

record ('a, 's) retried =
  result :: "'a option"
  world :: 's
  calls :: nat
  sleeps :: "int list"

fun retry_loop ::
  "nat \<Rightarrow> int \<Rightarrow> ('a \<Rightarrow> bool) \<Rightarrow> ('s \<Rightarrow> 'a outcome \<times> 's) \<Rightarrow> 's \<Rightarrow> ('a, 's) retried" where
  "retry_loop 0 delay truthy f s = \<lparr>result = None, world = s, calls = 0, sleeps = []\<rparr>"
| "retry_loop (Suc k) delay truthy f s =
     (case f s of
        (Raises e, s') \<Rightarrow>
          (let r = retry_loop k delay truthy f s' in r\<lparr>calls := Suc (calls r)\<rparr>)
      | (Returns output, s') \<Rightarrow>
          if \<not> truthy output then
            (let r = retry_loop k delay truthy f s'
             in r\<lparr>calls := Suc (calls r),
                   sleeps := (if 0 \<le> delay then delay # sleeps r else sleeps r)\<rparr>)
          else \<lparr>result = Some output, world = s', calls = 1, sleeps = []\<rparr>)"

definition retry ::
  "int \<Rightarrow> int \<Rightarrow> ('a \<Rightarrow> bool) \<Rightarrow> ('s \<Rightarrow> 'a outcome \<times> 's) \<Rightarrow> 's \<Rightarrow> ('a, 's) retried" where
  "retry retries delay truthy f s = retry_loop (nat retries) delay truthy f s"

text \<open>
  The world before the \<open>i\<close>-th call (counting from 0) when the function is called again
  and again, and the outcome of that call.
\<close>

fun world_before :: "('s \<Rightarrow> 'a outcome \<times> 's) \<Rightarrow> 's \<Rightarrow> nat \<Rightarrow> 's" where
  "world_before f s 0 = s"
| "world_before f s (Suc i) = world_before f (snd (f s)) i"

definition outcome_of :: "('s \<Rightarrow> 'a outcome \<times> 's) \<Rightarrow> 's \<Rightarrow> nat \<Rightarrow> 'a outcome" where
  "outcome_of f s i = fst (f (world_before f s i))"

fun succeeds :: "('a \<Rightarrow> bool) \<Rightarrow> 'a outcome \<Rightarrow> bool" where
  "succeeds truthy (Raises e) = False"
| "succeeds truthy (Returns v) = truthy v"

subsection \<open>dec\_degrees and ra\_degrees\<close>

text \<open>
  \<open>m/60.0\<close> converts the integer to a float and divides; \<open>d - m/60.0\<close> converts \<open>d\<close>
  and subtracts; every operation rounds. \<open>dec[0][0]\<close> is the first character of the first
  field, which is not empty once \<open>int(dec[0])\<close> has succeeded.
\<close>

definition dec_degrees :: "string \<Rightarrow> exn + rat" where
  "dec_degrees dec_s =
     (let dec = split_from '':'' [] dec_s in
      and_then (idx dec 0) (\<lambda>dec0.
      and_then (py_int dec0) (\<lambda>d.
      and_then (idx dec 1) (\<lambda>dec1.
      and_then (py_int dec1) (\<lambda>m.
      and_then (idx dec 2) (\<lambda>dec2.
      and_then (py_float dec2) (\<lambda>s.
      and_then (idx dec0 0) (\<lambda>c.
        if c = CHR ''-''
        then Inr (fsub (fsub (float_of_int d) (fdiv (float_of_int m) 60)) (fdiv s 3600))
        else Inr (fadd (fadd (float_of_int d) (fdiv (float_of_int m) 60)) (fdiv s 3600))
      ))))))))"

text \<open>\<open>h*15\<close> is an integer product; \<open>0.25\<close> and \<open>15.0\<close> are exact floats.\<close>

definition ra_degrees :: "string \<Rightarrow> exn + rat" where
  "ra_degrees ra_s =
     (let ra = split_from '':'' [] ra_s in
      and_then (idx ra 0) (\<lambda>ra0.
      and_then (py_int ra0) (\<lambda>h.
      and_then (idx ra 1) (\<lambda>ra1.
      and_then (py_int ra1) (\<lambda>m.
      and_then (idx ra 2) (\<lambda>ra2.
      and_then (py_float ra2) (\<lambda>s.
        Inr (fadd (fadd (float_of_int (h * 15)) (fmul (float_of_int m) (1 / 4)))
                  (fdiv (fmul s 15) 3600))
      )))))))"

text \<open>The call returned a value within \<open>tol\<close> of \<open>x\<close>.\<close>

definition returns_within :: "rat \<Rightarrow> rat \<Rightarrow> exn + rat \<Rightarrow> bool" where
  "returns_within tol x r = (case r of Inl e \<Rightarrow> False | Inr v \<Rightarrow> \<bar>v - x\<bar> \<le> tol)"

subsection \<open>Printing integers\<close>

text \<open>\<open>str(n)\<close> of an integer: its decimal digits, with a minus sign when negative.\<close>

definition digit_char :: "nat \<Rightarrow> char" where
  "digit_char d = char_of (48 + d)"

function str_nat :: "nat \<Rightarrow> string" where
  "str_nat n = (if n < 10 then [digit_char n] else str_nat (n div 10) @ [digit_char (n mod 10)])"
  by pat_completeness auto
termination
  by (relation "measure id") auto

definition str_int :: "int \<Rightarrow> string" where
  "str_int i = (if i < 0 then CHR ''-'' # str_nat (nat (- i)) else str_nat (nat i))"

section \<open>The Redis store and the messages sent\<close>

text \<open>
  The store as the functions read it. \<open>strings\<close> is \<open>r.get\<close> on a key that holds
  text. \<open>floats\<close> is \<open>r.get\<close> on a key that holds the text of a float, as
  \<open>r.set(key, x)\<close> writes it for a float \<open>x\<close> and \<open>float(r.get(key))\<close> reads it
  back; \<open>None\<close> is a key that is not set. \<open>hashes\<close> is \<open>r.hgetall\<close>, which answers
  the empty dictionary for a key that is not set.
\<close>

record redis =
  strings :: "string \<Rightarrow> string option"
  floats :: "string \<Rightarrow> rat option"
  hashes :: "string \<Rightarrow> (string \<times> string) list"

text \<open>
  What a function sends out, in the order it does so: group keys for the instances,
  gateway messages, alerts, timers, annotations, list pushes and channel messages.
  Logging is not recorded.
\<close>

datatype val = NoneV | IntV int | FloatV rat | StrV string

datatype event =
    SetGroupKey string string val
  | GatewayMsg string string string
  | Alert string
  | StartTimer nat string
  | Annotate string string
  | LPush string string
  | Publish string string

text \<open>
  A run: the events sent, and the value returned or the exception raised after them.
\<close>

type_synonym 'a run = "event list \<times> (exn + 'a)"

definition emit :: "event \<Rightarrow> unit run" where
  "emit e = ([e], Inr ())"

definition lift :: "exn + 'a \<Rightarrow> 'a run" where
  "lift x = ([], x)"

definition seq :: "'a run \<Rightarrow> ('a \<Rightarrow> 'b run) \<Rightarrow> 'b run" where
  "seq m k =
     (case m of
        (es, Inl e) \<Rightarrow> (es, Inl e)
      | (es, Inr v) \<Rightarrow> (case k v of (es', r) \<Rightarrow> (es @ es', r)))"

section \<open>coordinator/rec\_util.py\<close>

text \<open>
  The source file has two slips of transcription that stop it from compiling: a stray
  \<open>]\<close> in the f-string of line 75 and a stray \<open>:\<close> at the end of line 96. The model
  reads line 75 as \<open>f"MeerKAT:{array}:{pktstart_str}"\<close> and line 96 without the colon.
  \<open>util.retry\<close>, \<open>util.ra_degrees\<close> and \<open>util.dec_degrees\<close> are the functions of
  \<open>automator/util.py\<close>.
\<close>

definition HPGDOMAIN :: string where
  "HPGDOMAIN = ''bluse''"

definition PKTIDX_MARGIN :: int where
  "PKTIDX_MARGIN = 2048"

definition DEFAULT_DWELL :: int where
  "DEFAULT_DWELL = 290"

subsection \<open>get\_pkt\_idx and get\_pktstart\<close>

definition get_pkt_idx :: "redis \<Rightarrow> string \<Rightarrow> string option" where
  "get_pkt_idx r instance_key =
     (let daq_status = hashes r instance_key in
      if length daq_status > 0 then
        (if ''NETSTAT'' \<in> fst ` set daq_status then
           (if map_of daq_status ''NETSTAT'' \<noteq> Some ''idle'' then
              (if ''PKTIDX'' \<in> fst ` set daq_status
               then map_of daq_status ''PKTIDX''
               else None)
            else None)
         else None)
      else None)"

text \<open>
  The first loop of \<open>get_pktstart\<close>: \<open>if not pkt_index: continue\<close> skips an instance
  for which \<open>get_pkt_idx\<close> answers \<open>None\<close> or the empty string.
\<close>

definition status_key :: "string \<Rightarrow> string" where
  "status_key instance = HPGDOMAIN @ ''://'' @ instance @ ''/status''"

fun pkt_indices_of :: "redis \<Rightarrow> string list \<Rightarrow> string list" where
  "pkt_indices_of r [] = []"
| "pkt_indices_of r (instance # instances) =
     (case get_pkt_idx r (status_key instance) of
        None \<Rightarrow> pkt_indices_of r instances
      | Some pkt_index \<Rightarrow>
          if pkt_index = [] then pkt_indices_of r instances
          else pkt_index # pkt_indices_of r instances)"

text \<open>
  \<open>np.asarray(pkt_indices, dtype=np.int64)\<close> converts each string as \<open>int\<close> does and
  raises OverflowError for a value outside 64 bits; the first string that fails decides
  the exception. Addition of \<open>np.int64\<close> values wraps around.
\<close>

definition to_int64 :: "string \<Rightarrow> exn + int" where
  "to_int64 s =
     and_then (py_int s) (\<lambda>i.
       if - (2 ^ 63) \<le> i \<and> i < 2 ^ 63 then Inr i else Inl OverflowError)"

fun asarray_int64 :: "string list \<Rightarrow> exn + int list" where
  "asarray_int64 [] = Inr []"
| "asarray_int64 (s # ss) =
     and_then (to_int64 s) (\<lambda>i. and_then (asarray_int64 ss) (\<lambda>is. Inr (i # is)))"

text \<open>\<open>np.max\<close> raises ValueError on an empty array.\<close>

fun np_max :: "int list \<Rightarrow> exn + int" where
  "np_max [] = Inl ValueError"
| "np_max (x # xs) = Inr (fold max xs x)"

definition int64_add :: "int \<Rightarrow> int \<Rightarrow> int" where
  "int64_add a b = signed_take_bit 63 (a + b)"

text \<open>
  What \<open>get_pktstart\<close> uses of the world outside: \<open>redis_util.pktidx_to_timestamp\<close>
  (not part of these sources) for a subarray and a packet index, and the clock. A
  \<open>datetime\<close> is its number of microseconds since the epoch, the resolution of the type;
  \<open>timedelta(minutes=2)\<close> is 120000000 microseconds.
\<close>

record clock =
  pktidx_to_timestamp :: "string \<Rightarrow> int \<Rightarrow> rat"
  utcfromtimestamp :: "rat \<Rightarrow> int"
  strftime :: "int \<Rightarrow> string"
  utcnow :: int

record pktstart_data =
  pktstart :: int
  pktstart_str :: string
  pktstart_ts :: rat

definition two_minutes :: int where
  "two_minutes = 120000000"

text \<open>
  The three timestamps computed for the log line (of the maximum, the median and the
  minimum) are not used afterwards and are left out.
\<close>

definition get_pktstart ::
  "clock \<Rightarrow> redis \<Rightarrow> string list \<Rightarrow> int \<Rightarrow> string \<Rightarrow> (pktstart_data option) run" where
  "get_pktstart clk r instances margin array =
     (let pkt_indices = pkt_indices_of r instances in
      if length pkt_indices > 0 then
        seq (lift (asarray_int64 pkt_indices)) (\<lambda>pkt_indices.
        seq (lift (np_max pkt_indices)) (\<lambda>max_idx.
          let pktstart = int64_add max_idx margin;
              pktstart_timestamp = pktidx_to_timestamp clk array pktstart;
              pktstart_dt = utcfromtimestamp clk pktstart_timestamp;
              pktstart_str = strftime clk pktstart_dt
          in if \<bar>pktstart_dt - utcnow clk\<bar> > two_minutes
             then seq (emit (Alert ('':warning: `'' @ array @ ''` bad pktstart'')))
                      (\<lambda>_. lift (Inr None))
             else lift (Inr (Some \<lparr>pktstart = pktstart,
                                    pktstart_str = pktstart_str,
                                    pktstart_ts = pktstart_timestamp\<rparr>))))
      else lift (Inr None))"

subsection \<open>get\_primary\_target\<close>

record target_data =
  target :: string
  ra :: string
  dec :: string

definition punctuation :: string where
  "punctuation = ''!'' @ [CHR 0x22] @ ''#$%&'' @ [CHR 0x27] @ ''()*,./:;<=>?@[''
                 @ [CHR 0x5C] @ '']^_`{|}~''"

text \<open>\<open>str.maketrans(punctuation, '_'*30)\<close>: the table has one entry for each of the
  30 characters of \<open>punctuation\<close>.\<close>

definition translate_punctuation :: "string \<Rightarrow> string" where
  "translate_punctuation s = map (\<lambda>c. if c \<in> set punctuation then CHR ''_'' else c) s"

text \<open>
  \<open>float(r.get(key))\<close> raises TypeError for a key that is not set, and
  \<open>target_val.strip\<close> raises AttributeError when the target key is not set.
\<close>

definition get_float :: "redis \<Rightarrow> string \<Rightarrow> exn + rat" where
  "get_float r key = (case floats r key of None \<Rightarrow> Inl TypeError | Some x \<Rightarrow> Inr x)"

definition get_primary_target ::
  "redis \<Rightarrow> string \<Rightarrow> int \<Rightarrow> string \<Rightarrow> exn + target_data option" where
  "get_primary_target r array length_limit delimiter =
     (let target_val = strings r (array @ '':target'') in
      and_then (get_float r (array @ '':last-target'')) (\<lambda>target_ts.
      and_then (get_float r (array @ '':last-track-end'')) (\<lambda>last_track_end.
        if target_ts < fsub last_track_end 5 then Inr None
        else case target_val of
          None \<Rightarrow> Inl AttributeError
        | Some target_val \<Rightarrow>
            (let target = strip_chars [CHR 0x27] target_val in
             if contains ''radec'' target then
               (let target = split_from '','' [] target in
                if length target < 4 then
                  and_then (idx target 1) (\<lambda>t1.
                  and_then (idx target 2) (\<lambda>t2.
                    Inr (Some \<lparr>target = ''NOT_PROVIDED'', ra = strip t1, dec = strip t2\<rparr>)))
                else
                  and_then (idx target 0) (\<lambda>t0.
                  and_then (split delimiter t0) (\<lambda>names.
                  and_then (idx names 0) (\<lambda>target_name.
                    let target_name = strip target_name;
                        target_name = strip_chars '','' target_name;
                        target_name = translate_punctuation target_name;
                        target_name = slice0 length_limit target_name
                    in and_then (idx target 2) (\<lambda>t2.
                       and_then (idx target 3) (\<lambda>t3.
                         Inr (Some \<lparr>target = target_name, ra = strip t2, dec = strip t3\<rparr>)))))))
             else Inr None))))"

subsection \<open>get\_cals\<close>

text \<open>
  The telescope-state interface (\<open>coordinator/telstate_interface.py\<close>, not part of these
  sources): whether \<open>TelstateInterface(r, endpoint)\<close> can be built for an endpoint, what
  \<open>get_phaseup_time()\<close> answers and whether \<open>query_telstate(array)\<close> raises. The
  solutions that \<open>query_telstate\<close> saves are kept under keys of their own and are not
  part of the model.
\<close>

record telstate =
  connects :: "string \<Rightarrow> bool"
  get_phaseup_time :: "exn + rat"
  query_telstate :: "string \<Rightarrow> exn + unit"

text \<open>
  \<open>r.get(None)\<close> raises DataError. The parsing of the endpoint is inside a bare
  \<open>except\<close> that returns: it fails when the endpoint key is not set (AttributeError) and
  when the value has no comma (IndexError).
\<close>

definition parse_endpoint :: "string option \<Rightarrow> string option" where
  "parse_endpoint endpoint_val =
     (case endpoint_val of
        None \<Rightarrow> None
      | Some v \<Rightarrow>
          (let components = split_from '','' [] (strip_chars ''()'' v) in
           case (idx components 0, idx components 1) of
             (Inr c0, Inr c1) \<Rightarrow> Some (strip_chars [CHR 0x27] c0 @ '':'' @ strip c1)
           | _ \<Rightarrow> None))"

text \<open>\<open>if not ts: ts = 0 else: ts = float(ts)\<close> for a timestamp key.\<close>

definition ts_or_zero :: "redis \<Rightarrow> string \<Rightarrow> rat" where
  "ts_or_zero r key = (case floats r key of None \<Rightarrow> 0 | Some x \<Rightarrow> x)"

definition last_cal_key :: "string \<Rightarrow> string" where
  "last_cal_key array = array @ '':last-cal''"

definition get_cals :: "telstate \<Rightarrow> redis \<Rightarrow> string \<Rightarrow> redis \<times> (exn + string option)" where
  "get_cals tel r array =
     (case strings r (array @ '':telstate_sensor'') of
        None \<Rightarrow> (r, Inl DataError)
      | Some endpoint_key \<Rightarrow>
          (case parse_endpoint (strings r endpoint_key) of
             None \<Rightarrow> (r, Inr None)
           | Some telstate_endpoint \<Rightarrow>
               if \<not> connects tel telstate_endpoint then (r, Inr None)
               else
                 (let last_config_ts = ts_or_zero r (array @ '':last-config'') in
                  case get_phaseup_time tel of
                    Inl e \<Rightarrow> (r, Inl e)
                  | Inr current_cal_ts \<Rightarrow>
                      if current_cal_ts < last_config_ts then (r, Inr None)
                      else
                        (let last_cal_ts = ts_or_zero r (last_cal_key array) in
                         if last_cal_ts < current_cal_ts then
                           (case query_telstate tel array of
                              Inl e \<Rightarrow> (r, Inl e)
                            | Inr _ \<Rightarrow>
                                (r\<lparr>floats := (floats r)(last_cal_key array \<mapsto> current_cal_ts)\<rparr>,
                                 Inr (Some ''success'')))
                         else (r, Inr None)))))"

text \<open>
  A sequence of \<open>get_cals\<close> invocations for one subarray, each against the telescope
  state of its moment; an invocation that raises leaves the store as it was. The
  function returns the stores after each invocation.
\<close>

fun get_cals_trace :: "redis \<Rightarrow> string \<Rightarrow> telstate list \<Rightarrow> redis list" where
  "get_cals_trace r array [] = []"
| "get_cals_trace r array (tel # tels) =
     (let r' = fst (get_cals tel r array) in r' # get_cals_trace r' array tels)"

definition last_cal :: "redis \<Rightarrow> string \<Rightarrow> rat" where
  "last_cal r array = ts_or_zero r (last_cal_key array)"

subsection \<open>The sensors read by record\<close>

text \<open>
  \<open>array[-1]\<close> raises IndexError on the empty string, and an f-string prints \<open>None\<close>
  for a key that is not set.
\<close>

definition last_char :: "string \<Rightarrow> exn + string" where
  "last_char s = (if s = [] then Inl IndexError else Inr [last s])"

definition fstr :: "string option \<Rightarrow> string" where
  "fstr v = (case v of None \<Rightarrow> ''None'' | Some s \<Rightarrow> s)"

text \<open>
  What \<open>record\<close> uses of the world outside besides the store: the clock of
  \<open>get_pktstart\<close>, the formatting \<open>'{0:.17g}'.format\<close> of a float,
  \<open>redis_util.sb_id\<close> (not part of these sources) and \<open>json.dumps\<close> of a dictionary.
\<close>

record services =
  srv_clock :: clock
  format_17g :: "rat \<Rightarrow> string"
  sb_id :: "redis \<Rightarrow> string \<Rightarrow> string"
  json_dumps :: "(string \<times> val) list \<Rightarrow> string"

definition TARGETS_CHANNEL :: string where
  "TARGETS_CHANNEL = ''target-selector:new-pointing''"

definition obs_band :: "redis \<Rightarrow> string \<Rightarrow> exn + string option" where
  "obs_band r array =
     and_then (last_char array) (\<lambda>n. Inr (strings r (''subarray_'' @ n @ ''_band'')))"

text \<open>
  \<open>centre_freq\<close> and \<open>bandwidth\<close> catch every exception and then return \<open>None\<close>:
  IndexError for an empty subarray name and TypeError for a sensor that is not set.
\<close>

definition centre_freq :: "services \<Rightarrow> redis \<Rightarrow> string \<Rightarrow> string option" where
  "centre_freq srv r array =
     (case last_char array of
        Inl e \<Rightarrow> None
      | Inr s_num \<Rightarrow>
          (let sensor = ''antenna_channelised_voltage_centre_frequency'';
               cbf_prefix = strings r (array @ '':cbf_prefix'');
               sensor_key = array @ '':subarray_'' @ s_num @ ''_streams_'' @ fstr cbf_prefix
                            @ ''_'' @ sensor
           in case get_float r sensor_key of
                Inl e \<Rightarrow> None
              | Inr centre_freq \<Rightarrow> Some (format_17g srv (fdiv centre_freq 1000000))))"

definition bandwidth :: "redis \<Rightarrow> string \<Rightarrow> rat option" where
  "bandwidth r array =
     (let cbf_prefix = strings r (array @ '':cbf_prefix'') in
      case last_char array of
        Inl e \<Rightarrow> None
      | Inr n \<Rightarrow>
          (case get_float r (''cbf_'' @ n @ ''_'' @ fstr cbf_prefix @ ''_bandwidth'') of
             Inl e \<Rightarrow> None
           | Inr bandwidth \<Rightarrow> Some (fdiv bandwidth 1000000)))"

definition check_primary_time :: "redis \<Rightarrow> string \<Rightarrow> exn + bool" where
  "check_primary_time r array =
     and_then (last_char array) (\<lambda>array_num.
       case strings r (array @ '':subarray_'' @ array_num @ ''_script_proposal_id'') of
         None \<Rightarrow> Inr False
       | Some proposal_id \<Rightarrow>
           if proposal_id = [] then Inr False
           else Inr (strip_chars [CHR 0x27] proposal_id = ''DDT-20230920-DC-01''))"

subsection \<open>The messages of record\<close>

fun set_datadir :: "string \<Rightarrow> string \<Rightarrow> nat list \<Rightarrow> string \<Rightarrow> unit run" where
  "set_datadir array pktstart_s [] sb = lift (Inr ())"
| "set_datadir array pktstart_s (instance_n # instance_numbers) sb =
     (let group = HPGDOMAIN @ '':'' @ array @ ''-'' @ str_nat instance_n @ ''///set'';
          datadir = ''/buf'' @ str_nat instance_n @ ''/'' @ pktstart_s @ ''-'' @ sb
      in seq (emit (GatewayMsg group ''DATADIR'' datadir))
             (\<lambda>_. set_datadir array pktstart_s instance_numbers sb))"

text \<open>
  \<open>host, n = instance.split("/")\<close> raises ValueError unless there are exactly two
  pieces. \<open>recording\<close> is a set; the model visits its elements in the order of the list
  it was built from.
\<close>

fun add_unprocessed :: "string list \<Rightarrow> string \<Rightarrow> string \<Rightarrow> unit run" where
  "add_unprocessed [] pktstart_s sb = lift (Inr ())"
| "add_unprocessed (instance # recording) pktstart_s sb =
     (case split_from ''/'' [] instance of
        [host, n] \<Rightarrow>
          seq (emit (LPush (instance @ '':unprocessed'')
                           (''/buf'' @ n @ ''/'' @ pktstart_s @ ''-'' @ sb)))
              (\<lambda>_. add_unprocessed recording pktstart_s sb)
      | _ \<Rightarrow> lift (Inl ValueError))"

text \<open>
  In \<open>request_targets\<close>, \<open>centre_freq(r, array)\<close> is the string that
  \<open>'{0:.17g}'.format\<close> made, or \<open>None\<close>, and \<open>bandwidth(r, array)/2\<close> is a float, or
  raises TypeError when the bandwidth is \<open>None\<close>. The sum of a string or \<open>None\<close> and a
  float raises TypeError, so \<open>f_max\<close> never has a value and the message is never
  published.
\<close>

definition add_str_float :: "string option \<Rightarrow> rat \<Rightarrow> exn + rat" where
  "add_str_float s x = Inl TypeError"

definition request_targets ::
  "services \<Rightarrow> redis \<Rightarrow> string \<Rightarrow> rat \<Rightarrow> string \<Rightarrow> rat \<Rightarrow> rat \<Rightarrow> unit run" where
  "request_targets srv r array start_ts tgt ra_deg dec_deg =
     seq (lift (obs_band r array)) (\<lambda>band.
     seq (lift (let cf = centre_freq srv r array in
                and_then (case bandwidth r array of
                            None \<Rightarrow> Inl TypeError
                          | Some b \<Rightarrow> Inr (fdiv b 2)) (\<lambda>half.
                add_str_float cf half))) (\<lambda>f_max.
       emit (Publish TARGETS_CHANNEL
               (''POINTING:'' @ json_dumps srv
                  [(''telescope'', StrV ''MeerKAT''), (''array'', StrV array),
                   (''pktstart_ts'', FloatV start_ts), (''target'', StrV tgt),
                   (''ra_deg'', FloatV ra_deg), (''dec_deg'', FloatV dec_deg),
                   (''f_max'', FloatV f_max),
                   (''band'', case band of None \<Rightarrow> NoneV | Some b \<Rightarrow> StrV b)]))))"

subsection \<open>record\<close>

text \<open>
  The function \<open>record\<close> of the source; the name is taken by a command of Isabelle.

  \<open>publish_session\<close> is the straight-line part of \<open>record\<close> from line 58 on, after
  the three checks that can return early. The call of \<open>write_metadata\<close> in line 99
  names two variables, \<open>instance\<close> and \<open>datadir\<close>, that are defined nowhere: it raises
  NameError, and the lines after it (the recording timer, the alert and
  \<open>return set(instances)\<close>) are never reached.
\<close>

definition publish_session ::
  "services \<Rightarrow> redis \<Rightarrow> string \<Rightarrow> string list \<Rightarrow> target_data \<Rightarrow> pktstart_data
     \<Rightarrow> (string list option) run" where
  "publish_session srv r array instances target_data pd =
     (let sb = sb_id srv r array in
      seq (set_datadir array (pktstart_str pd) [0, 1] sb) (\<lambda>_.
      seq (emit (SetGroupKey array ''SRC_NAME'' (StrV (target target_data)))) (\<lambda>_.
      seq (lift (ra_degrees (ra target_data))) (\<lambda>ra_d.
      seq (emit (SetGroupKey array ''RA'' (FloatV ra_d))) (\<lambda>_.
      seq (emit (SetGroupKey array ''RA_STR'' (StrV (ra target_data)))) (\<lambda>_.
      seq (lift (dec_degrees (dec target_data))) (\<lambda>dec_d.
      seq (emit (SetGroupKey array ''DEC'' (FloatV dec_d))) (\<lambda>_.
      seq (emit (SetGroupKey array ''DEC_STR'' (StrV (dec target_data)))) (\<lambda>_.
      let obsid = ''MeerKAT:'' @ array @ '':'' @ pktstart_str pd in
      seq (emit (SetGroupKey array ''OBSID'' (StrV obsid))) (\<lambda>_.
      seq (emit (SetGroupKey array ''PKTSTART'' (StrV (str_int (pktstart pd))))) (\<lambda>_.
      seq (emit (Annotate ''RECORD'' (array @ '', OBSID: '' @ obsid))) (\<lambda>_.
      seq (request_targets srv r array (pktstart_ts pd) (target target_data) ra_d dec_d) (\<lambda>_.
      seq (lift (check_primary_time r array)) (\<lambda>primary.
      seq (if primary
           then emit (Alert ('':zap: `'' @ array
                  @ ''` Primary time detected, human intervention required after recording''))
           else add_unprocessed (remdups instances) (pktstart_str pd) sb) (\<lambda>_.
      lift (Inl NameError))))))))))))))))"

text \<open>
  One attempt of \<open>util.retry(5, 5, get_primary_target, r, array, 16, "|")\<close>; a
  dictionary is truthy and \<open>None\<close> is not.
\<close>

definition target_attempt :: "redis \<Rightarrow> string \<Rightarrow> unit \<Rightarrow> (target_data option) outcome \<times> unit" where
  "target_attempt r array u =
     (case get_primary_target r array 16 ''|'' of
        Inl e \<Rightarrow> (Raises e, u)
      | Inr v \<Rightarrow> (Returns v, u))"

definition record_subarray ::
  "services \<Rightarrow> redis \<Rightarrow> string \<Rightarrow> string list \<Rightarrow> (string list option) run" where
  "record_subarray srv r array instances =
     (case result (retry 5 5 (\<lambda>v. v \<noteq> None) (target_attempt r array) ()) of
        Some (Some target_data) \<Rightarrow>
          seq (emit (StartTimer 60 ''get_cals'')) (\<lambda>_.
          seq (emit (SetGroupKey array ''DWELL'' (IntV DEFAULT_DWELL))) (\<lambda>_.
          seq (get_pktstart (srv_clock srv) r instances PKTIDX_MARGIN array) (\<lambda>pktstart_data.
            case pktstart_data of
              None \<Rightarrow> lift (Inr None)
            | Some pd \<Rightarrow>
                (case centre_freq srv r array of
                   None \<Rightarrow> lift (Inr None)
                 | Some fecenter \<Rightarrow>
                     if fecenter = [] then lift (Inr None)
                     else publish_session srv r array instances target_data pd))))
      | _ \<Rightarrow> lift (Inr None))"

text \<open>The keys of the group-key publications of a run, in order.\<close>

fun group_keys :: "event list \<Rightarrow> string list" where
  "group_keys [] = []"
| "group_keys (SetGroupKey array key v # es) = key # group_keys es"
| "group_keys (e # es) = group_keys es"

definition session_keys :: "string list" where
  "session_keys = [''DWELL'', ''SRC_NAME'', ''RA'', ''RA_STR'', ''DEC'', ''DEC_STR'',
                   ''OBSID'', ''PKTSTART'']"

section \<open>coordinator/coordinator.py\<close>

text \<open>
  A dictionary that is iterated is a list of keys and values in the order of insertion.
  \<open>d[k]\<close> raises KeyError for a missing key; \<open>d[k] = v\<close> replaces the value of a key
  in place and puts a new key at the end.
\<close>

definition dict_get :: "('k \<times> 'v) list \<Rightarrow> 'k \<Rightarrow> exn + 'v" where
  "dict_get d k = (case map_of d k of None \<Rightarrow> Inl KeyError | Some v \<Rightarrow> Inr v)"

fun dict_set :: "('k \<times> 'v) list \<Rightarrow> 'k \<Rightarrow> 'v \<Rightarrow> ('k \<times> 'v) list" where
  "dict_set [] k v = [(k, v)]"
| "dict_set ((k', v') # d) k v = (if k' = k then (k, v) # d else (k', v') # dict_set d k v)"

text \<open>
  The state machines and the parsing of messages (\<open>coordinator/state_machines.py\<close>,
  \<open>coordinator/states.py\<close>, \<open>redis_util.parse_msg\<close>) are not part of these sources. A
  machine is a value of a type left open; the constructors make the machine of a
  subarray from its name and the set of instances, and \<open>handle_event\<close> turns a machine
  into the machine after the event. \<open>handle_event\<close> is given the message itself for a
  processing return and the second component of the parsed message otherwise.
\<close>

datatype 'm handled = Message 'm | Event string

record ('m, 'a, 'b) machinery =
  parse_msg :: "'m \<Rightarrow> string list option"
  new_freesubscribed :: "string \<Rightarrow> string list \<Rightarrow> 'a"
  new_recproc :: "string \<Rightarrow> string list \<Rightarrow> 'b"
  handle_free :: "'a \<Rightarrow> 'm handled \<Rightarrow> 'a"
  handle_recproc :: "'b \<Rightarrow> 'm handled \<Rightarrow> 'b"

text \<open>
  The attributes of a Coordinator object. \<open>__init__\<close> sets \<open>channels\<close>, \<open>free\<close>,
  \<open>all_instances\<close>, \<open>arrays\<close>, \<open>r\<close> and the two dictionaries of machines. The methods
  also read \<open>self.red\<close>, \<open>self.subscribed\<close> and \<open>self.redis_server\<close>, which
  \<open>__init__\<close> does not set: reading an attribute that the object does not have raises
  AttributeError. \<open>subscribed\<close> holds the keys of that dictionary when the object has
  it; the other two are only asked for.
\<close>

record ('a, 'b) coordinator =
  arrays :: "string list"
  all_instances :: "string list"
  freesubscribed_machines :: "(string \<times> 'a) list"
  recproc_machines :: "(string \<times> 'b) list"
  has_red :: bool
  subscribed :: "string list option"
  has_redis_server :: bool

definition init :: "string list \<Rightarrow> string list \<Rightarrow> ('a, 'b) coordinator" where
  "init config_arrays config_instances =
     \<lparr>arrays = config_arrays, all_instances = config_instances,
      freesubscribed_machines = [], recproc_machines = [],
      has_red = False, subscribed = None, has_redis_server = False\<rparr>"

definition processing_return ::
  "('m, 'a, 'b) machinery \<Rightarrow> ('a, 'b) coordinator \<Rightarrow> 'm \<Rightarrow> ('a, 'b) coordinator" where
  "processing_return h c message =
     c\<lparr>recproc_machines :=
         map (\<lambda>(array, machine). (array, handle_recproc h machine (Message message)))
             (recproc_machines c)\<rparr>"

text \<open>
  The body of the loop over \<open>ps.listen()\<close> in \<open>start\<close>, lines 52 to 60, for one
  message. \<open>if components:\<close> is false for \<open>None\<close> and for an empty list.
\<close>

definition on_message ::
  "('m, 'a, 'b) machinery \<Rightarrow> ('a, 'b) coordinator \<Rightarrow> 'm \<Rightarrow> exn + ('a, 'b) coordinator" where
  "on_message h c message =
     (case parse_msg h message of
        None \<Rightarrow> Inr c
      | Some components \<Rightarrow>
          if components = [] then Inr c
          else
            and_then (idx components 0) (\<lambda>c0.
              if c0 = ''RETURN'' then Inr (processing_return h c message)
              else
                and_then (idx components 1) (\<lambda>event.
                and_then (dict_get (freesubscribed_machines c) c0) (\<lambda>fm.
                  let c1 = c\<lparr>freesubscribed_machines :=
                               dict_set (freesubscribed_machines c) c0
                                 (handle_free h fm (Event event))\<rparr>
                  in and_then (dict_get (recproc_machines c1) c0) (\<lambda>rm.
                       Inr (c1\<lparr>recproc_machines :=
                                 dict_set (recproc_machines c1) c0
                                   (handle_recproc h rm (Event event))\<rparr>))))))"

text \<open>The loop itself, over the messages that arrive; an exception ends it.\<close>

fun listen ::
  "('m, 'a, 'b) machinery \<Rightarrow> ('a, 'b) coordinator \<Rightarrow> 'm list \<Rightarrow> exn + ('a, 'b) coordinator" where
  "listen h c [] = Inr c"
| "listen h c (message # messages) =
     and_then (on_message h c message) (\<lambda>c'. listen h c' messages)"

text \<open>The loop over \<open>self.arrays\<close> in \<open>start\<close>, lines 34 to 41.\<close>

fun seed_machines ::
  "('m, 'a, 'b) machinery \<Rightarrow> ('a, 'b) coordinator \<Rightarrow> string list
     \<Rightarrow> exn + ('a, 'b) coordinator" where
  "seed_machines h c [] = Inr c"
| "seed_machines h c (array # rest) =
     (case subscribed c of
        None \<Rightarrow> Inl AttributeError
      | Some keys \<Rightarrow>
          seed_machines h
            (c\<lparr>subscribed := Some (if array \<in> set keys then keys else keys @ [array]),
               freesubscribed_machines :=
                 dict_set (freesubscribed_machines c) array
                   (new_freesubscribed h array (all_instances c)),
               recproc_machines :=
                 dict_set (recproc_machines c) array (new_recproc h array (all_instances c))\<rparr>)
            rest)"

text \<open>
  \<open>start\<close>: the alert (\<open>self.alert\<close> reads \<open>self.red\<close>), the machines, the
  subscription (\<open>self.redis_server\<close>) and the loop.
\<close>

definition start ::
  "('m, 'a, 'b) machinery \<Rightarrow> ('a, 'b) coordinator \<Rightarrow> 'm list \<Rightarrow> exn + ('a, 'b) coordinator" where
  "start h c messages =
     (if \<not> has_red c then Inl AttributeError
      else and_then (seed_machines h c (arrays c)) (\<lambda>c1.
             if \<not> has_redis_server c1 then Inl AttributeError
             else listen h c1 messages))"

section \<open>coordinator\_states/proc.py\<close>

text \<open>
  What the processing step uses of the machine it runs on: the lists kept in Redis
  (\<open>proc_util.get_items\<close>, not part of these sources, answers a set; the model has its
  elements in the order in which the set is iterated), \<open>os.path.exists\<close>,
  \<open>proc_util.timestamped_dir_from_filename\<close>, \<open>proc_util.get_n_proc\<close>, the return
  code of the seticore process for a command line, and whether \<open>shutil.rmtree\<close> of a
  path succeeds (\<open>True\<close>) or raises.
\<close>

record machine =
  get_items :: "string \<Rightarrow> string \<Rightarrow> string list"
  path_exists :: "string \<Rightarrow> bool"
  timestamped_dir_from_filename :: "string \<Rightarrow> string"
  get_n_proc :: int
  seticore :: "string list \<Rightarrow> int"
  rmtree :: "string \<Rightarrow> bool"

definition RESULT_CHANNEL :: string where
  "RESULT_CHANNEL = ''proc_result''"

definition BFRDIR :: string where
  "BFRDIR = ''/home/obs/bfr5''"

definition PARTITION :: string where
  "PARTITION = ''scratch''"

text \<open>
  \<open>make_outputdir\<close> calls \<open>os.path.makedirs\<close>. The module \<open>os.path\<close> has no
  function of that name (\<open>makedirs\<close> is a function of \<open>os\<close>), so the call raises
  AttributeError, which the handler for \<open>Exception\<close> catches: the function logs the
  error and returns \<open>False\<close>, for every directory.
\<close>

definition make_outputdir :: "string \<Rightarrow> bool" where
  "make_outputdir outputdir = False"

definition run_seticore :: "machine \<Rightarrow> string \<Rightarrow> string \<Rightarrow> string \<Rightarrow> string \<Rightarrow> int" where
  "run_seticore w bfrdir inputdir tsdir partition_name =
     (let outputdir = ''/'' @ partition_name @ ''/data/'' @ tsdir @ ''/seticore_search'' in
      if \<not> make_outputdir outputdir then 2
      else
        (let seticore_command =
               [''/home/lacker/bin/seticore'', ''--input'', inputdir, ''--output'', outputdir,
                ''--snr'', ''6'', ''--num_bands'', ''16'', ''--fine_channels'', ''8388608'',
                ''--telescope_id'', ''64'', ''--recipe_dir'', bfrdir];
             n = get_n_proc w
         in if n mod 10 = 0 then
              (let h5dir = ''/'' @ partition_name @ ''/data/'' @ tsdir @ ''/seticore_beamformer'' in
               if \<not> make_outputdir h5dir then 2
               else seticore w (seticore_command @ [''--h5_dir'', h5dir]))
            else seticore w seticore_command))"

text \<open>
  \<open>rm_datadir\<close> returns whether the directory was removed, or raises IndexError when
  \<open>components[1]\<close> or \<open>components[2]\<close> does not exist. With the value it returns,
  the model gives the paths that were handed to \<open>shutil.rmtree\<close>.
\<close>

definition rm_datadir :: "machine \<Rightarrow> string \<Rightarrow> string \<Rightarrow> exn + bool \<times> string list" where
  "rm_datadir w datadir instance_number =
     (let components = split_from ''/'' [] datadir in
      and_then (idx components 1) (\<lambda>c1.
        if c1 \<noteq> ''buf0ro'' then Inr (False, [])
        else
          and_then (idx components 2) (\<lambda>datadir_id.
            let root = ''/buf'' @ instance_number;
                rm_path = root @ ''/'' @ datadir_id
            in Inr (rmtree w rm_path, [rm_path]))))"

text \<open>
  The first loop of \<open>process\<close>: the dictionary \<open>results\<close>, with an entry for every
  unprocessed directory that exists (the directories of a set are distinct).
\<close>

fun run_all :: "machine \<Rightarrow> string list \<Rightarrow> (string \<times> int) list" where
  "run_all w [] = []"
| "run_all w (datadir # unprocessed) =
     (if \<not> path_exists w datadir then run_all w unprocessed
      else
        (let tsdir = timestamped_dir_from_filename w datadir
         in (datadir, run_seticore w BFRDIR datadir tsdir PARTITION) # run_all w unprocessed))"

text \<open>
  The clean-up loop of \<open>process\<close>, lines 148 to 161, from the current
  \<open>max_returncode\<close>. It gives the removals made, each as the data directory with the
  path handed to \<open>shutil.rmtree\<close> for it, and the final \<open>max_returncode\<close> or the
  exception that ended the loop: KeyError when \<open>results\<close> has no entry for a directory,
  IndexError from \<open>rm_datadir\<close>.
\<close>

fun clean_up ::
  "machine \<Rightarrow> (string \<times> int) list \<Rightarrow> string \<Rightarrow> string list \<Rightarrow> int
     \<Rightarrow> (string \<times> string) list \<times> (exn + int)" where
  "clean_up w results n [] max_returncode = ([], Inr max_returncode)"
| "clean_up w results n (datadir # to_clean) max_returncode =
     (case dict_get results datadir of
        Inl e \<Rightarrow> ([], Inl e)
      | Inr res \<Rightarrow>
          if res > 1 then clean_up w results n to_clean max_returncode
          else
            (case rm_datadir w datadir n of
               Inl e \<Rightarrow> ([], Inl e)
             | Inr (removed, paths) \<Rightarrow>
                 (let res = (if \<not> removed then 2 else res);
                      max_returncode = (if res > max_returncode then res else max_returncode);
                      (removals, out) = clean_up w results n to_clean max_returncode
                  in (map (\<lambda>p. (datadir, p)) paths @ removals, out))))"

text \<open>
  \<open>process\<close>. The name is the literal \<open>"f{host}/{n}"\<close> of the source, which is not an
  f-string. The log line after the first loop reads \<open>result\<close>, which is not bound when
  no unprocessed directory exists: UnboundLocalError, a NameError. \<open>to_clean\<close> is the
  set difference, iterated in the order of \<open>unprocessed\<close>. The run gives the removals
  made and the message published, or the exception raised.
\<close>

definition process :: "machine \<Rightarrow> string \<Rightarrow> string \<Rightarrow> (string \<times> string) list \<times> (exn + event)" where
  "process w host n =
     (let name = ''f{host}/{n}'';
          unprocessed = get_items w name ''unprocessed'';
          preserved = get_items w name ''preserved'';
          results = run_all w unprocessed
      in if results = [] then ([], Inl NameError)
         else
           (let to_clean = filter (\<lambda>datadir. datadir \<notin> set preserved) unprocessed in
            case clean_up w results n to_clean 0 of
              (removals, Inl e) \<Rightarrow> (removals, Inl e)
            | (removals, Inr max_returncode) \<Rightarrow>
                (removals,
                 Inr (Publish RESULT_CHANNEL
                        (''RETURN:'' @ name @ '':'' @ str_int max_returncode)))))"

section \<open>Notions of the specification and example data\<close>

text \<open>
  An instance reports a packet index when \<open>get_pkt_idx\<close> answers a non-empty string
  for its status key.
\<close>

definition reports :: "redis \<Rightarrow> string \<Rightarrow> bool" where
  "reports r instance =
     (case get_pkt_idx r (status_key instance) of None \<Rightarrow> False | Some p \<Rightarrow> p \<noteq> [])"

text \<open>
  The instances the specification excludes: the status hash is absent, or it lacks
  \<open>NETSTAT\<close> or \<open>PKTIDX\<close>, or its \<open>NETSTAT\<close> is \<open>idle\<close>.
\<close>

definition excluded :: "redis \<Rightarrow> string \<Rightarrow> bool" where
  "excluded r instance =
     (let daq_status = hashes r (status_key instance) in
      daq_status = []
      \<or> ''NETSTAT'' \<notin> fst ` set daq_status
      \<or> ''PKTIDX'' \<notin> fst ` set daq_status
      \<or> map_of daq_status ''NETSTAT'' = Some ''idle'')"

text \<open>
  The second half of \<open>get_pktstart\<close>, from the packet index \<open>p\<close> it has computed:
  the plausibility check and the two ways out of it.
\<close>

definition checked_pktstart :: "clock \<Rightarrow> string \<Rightarrow> int \<Rightarrow> (pktstart_data option) run" where
  "checked_pktstart clk array p =
     (let ts = pktidx_to_timestamp clk array p; dt = utcfromtimestamp clk ts
      in if \<bar>dt - utcnow clk\<bar> > two_minutes
         then ([Alert ('':warning: `'' @ array @ ''` bad pktstart'')], Inr None)
         else ([], Inr (Some \<lparr>pktstart = p, pktstart_str = strftime clk dt, pktstart_ts = ts\<rparr>)))"

text \<open>
  A store with three instances that receive (packet indices 100, 200 and 150), an idle
  instance, an instance without \<open>NETSTAT\<close>, one without \<open>PKTIDX\<close> and, under every
  other key, no status at all.
\<close>

definition r_three :: redis where
  "r_three =
     \<lparr>strings = (\<lambda>k. None),
      floats = (\<lambda>k. None),
      hashes = (\<lambda>k.
        if k = ''bluse://blpn0/0/status'' then [(''NETSTAT'', ''receiving''), (''PKTIDX'', ''100'')]
        else if k = ''bluse://blpn1/0/status'' then [(''NETSTAT'', ''receiving''), (''PKTIDX'', ''200'')]
        else if k = ''bluse://blpn2/0/status'' then [(''NETSTAT'', ''receiving''), (''PKTIDX'', ''150'')]
        else if k = ''bluse://blpn3/0/status'' then [(''NETSTAT'', ''idle''), (''PKTIDX'', ''900'')]
        else if k = ''bluse://blpn4/0/status'' then [(''PKTIDX'', ''900'')]
        else if k = ''bluse://blpn5/0/status'' then [(''NETSTAT'', ''receiving'')]
        else [])\<rparr>"

text \<open>
  A clock for the examples: one packet a second from the epoch, and the current time
  \<open>now\<close> in microseconds.
\<close>

definition clock_at :: "int \<Rightarrow> clock" where
  "clock_at now =
     \<lparr>pktidx_to_timestamp = (\<lambda>array i. of_int i),
      utcfromtimestamp = (\<lambda>t. \<lfloor>t * 1000000\<rfloor>),
      strftime = (\<lambda>dt. str_int (dt div 1000000)),
      utcnow = now\<rparr>"

text \<open>The wall-clock time of a packet index, the alert and the result of \<open>get_pktstart\<close>.\<close>

definition start_datetime :: "clock \<Rightarrow> string \<Rightarrow> int \<Rightarrow> int" where
  "start_datetime clk array p = utcfromtimestamp clk (pktidx_to_timestamp clk array p)"


definition pktstart_result :: "clock \<Rightarrow> string \<Rightarrow> int \<Rightarrow> pktstart_data" where
  "pktstart_result clk array p =
     \<lparr>pktstart = p,
      pktstart_str = strftime clk (start_datetime clk array p),
      pktstart_ts = pktidx_to_timestamp clk array p\<rparr>"

text \<open>The stored target value of the specification's example.\<close>

definition example_target :: string where
  "example_target = ''J0918-1205 | Hyd A, radec, 9:18:05.28, -12:05:48.9''"

text \<open>
  A store with the target of the specification's example for \<open>array_1\<close> (updated five
  seconds before the end of the last track), a target without \<open>radec\<close> for
  \<open>array_2\<close>, and timestamps for \<open>array_3\<close> whose target update is six seconds
  older than the end of the last track.
\<close>

definition r_target :: redis where
  "r_target =
     \<lparr>strings = (\<lambda>k. if k = ''array_1:target''
                      then Some example_target
                      else if k = ''array_2:target'' then Some ''azel, 10.0, 45.0''
                      else None),
      floats = (\<lambda>k. if k = ''array_1:last-target'' then Some 1000
                     else if k = ''array_1:last-track-end'' then Some 1005
                     else if k = ''array_2:last-target'' then Some 1000
                     else if k = ''array_2:last-track-end'' then Some 900
                     else if k = ''array_3:last-target'' then Some 1000
                     else if k = ''array_3:last-track-end'' then Some 1006
                     else None),
      hashes = (\<lambda>k. [])\<rparr>"


text \<open>
  A telescope state that answers the phase-up time \<open>ts\<close>, and a store for
  \<open>array_1\<close> with its endpoint keys set, last configured at time 5 and with no
  calibration retrieved yet.
\<close>

definition tel_at :: "rat \<Rightarrow> telstate" where
  "tel_at ts = \<lparr>connects = (\<lambda>endpoint. True), get_phaseup_time = Inr ts,
                 query_telstate = (\<lambda>array. Inr ())\<rparr>"

definition r_cal :: redis where
  "r_cal =
     \<lparr>strings = (\<lambda>k. if k = ''array_1:telstate_sensor'' then Some ''array_1:telstate''
                      else if k = ''array_1:telstate''
                      then Some (''('' @ [CHR 0x27] @ ''10.98.2.128'' @ [CHR 0x27] @ '', 31029)'')
                      else None),
      floats = (\<lambda>k. if k = ''array_1:last-config'' then Some 5 else None),
      hashes = (\<lambda>k. [])\<rparr>"

text \<open>
  The last-configuration timestamp as \<open>get_cals\<close> reads it, and the store after
  \<open>r.set(f"{array}:last-cal", ts)\<close>.
\<close>

definition last_config :: "redis \<Rightarrow> string \<Rightarrow> rat" where
  "last_config r array = ts_or_zero r (array @ '':last-config'')"

definition set_last_cal :: "redis \<Rightarrow> string \<Rightarrow> rat \<Rightarrow> redis" where
  "set_last_cal r array ts = r\<lparr>floats := (floats r)(last_cal_key array \<mapsto> ts)\<rparr>"

text \<open>The group keys published in a run, and those that follow \<open>DWELL\<close>.\<close>

definition keys_of :: "'a run \<Rightarrow> string list" where
  "keys_of m = group_keys (fst m)"

definition published_keys :: "string list" where
  "published_keys = [''SRC_NAME'', ''RA'', ''RA_STR'', ''DEC'', ''DEC_STR'', ''OBSID'', ''PKTSTART'']"

text \<open>
  A store on which \<open>record\<close> passes its three checks: the example target for
  \<open>array_1\<close>, the three receiving instances of \<open>r_three\<close> and a centre-frequency
  sensor; with services whose clock stands at \<open>now\<close>.
\<close>

definition r_session :: redis where
  "r_session =
     \<lparr>strings = (\<lambda>k. if k = ''array_1:target'' then Some example_target
                      else if k = ''array_1:cbf_prefix'' then Some ''wide''
                      else None),
      floats = (\<lambda>k. if k = ''array_1:last-target'' then Some 1000
                     else if k = ''array_1:last-track-end'' then Some 1005
                     else if k = ''array_1:subarray_1_streams_wide_antenna_channelised_voltage_centre_frequency''
                     then Some 1284000000
                     else None),
      hashes = hashes r_three\<rparr>"

definition srv_at :: "int \<Rightarrow> services" where
  "srv_at now =
     \<lparr>srv_clock = clock_at now,
      format_17g = (\<lambda>x. str_int \<lfloor>x\<rfloor>),
      sb_id = (\<lambda>r array. ''20230920-0001''),
      json_dumps = (\<lambda>d. ''{}'')\<rparr>"

text \<open>The message is a processing return: its parsed form starts with RETURN.\<close>

definition is_return :: "('m, 'a, 'b) machinery \<Rightarrow> 'm \<Rightarrow> bool" where
  "is_return h message =
     (case parse_msg h message of
        Some (scope # rest) \<Rightarrow> scope = ''RETURN''
      | _ \<Rightarrow> False)"

text \<open>
  Machinery for the examples: a message is its text, parsed at the colons; a machine is
  the list of what it has been handed. The coordinator has the attributes that
  \<open>start\<close> reads and two configured subarrays.
\<close>

definition logging_machinery :: "(string, string handled list, string handled list) machinery" where
  "logging_machinery =
     \<lparr>parse_msg = (\<lambda>m. Some (split_from '':'' [] m)),
      new_freesubscribed = (\<lambda>array instances. []),
      new_recproc = (\<lambda>array instances. []),
      handle_free = (\<lambda>machine e. machine @ [e]),
      handle_recproc = (\<lambda>machine e. machine @ [e])\<rparr>"

definition two_arrays :: "(string handled list, string handled list) coordinator" where
  "two_arrays =
     \<lparr>arrays = [''array_1'', ''array_2''], all_instances = [''blpn0/0'', ''blpn1/0''],
      freesubscribed_machines = [], recproc_machines = [],
      has_red = True, subscribed = Some [], has_redis_server = True\<rparr>"

definition two_arrays_seeded :: "(string handled list, string handled list) coordinator" where
  "two_arrays_seeded =
     two_arrays\<lparr>freesubscribed_machines := [(''array_1'', []), (''array_2'', [])],
                 recproc_machines := [(''array_1'', []), (''array_2'', [])],
                 subscribed := Some [''array_1'', ''array_2'']\<rparr>"

text \<open>The second component of a directory path, when it has one.\<close>

definition second_component :: "string \<Rightarrow> string option" where
  "second_component datadir =
     (case split_from ''/'' [] datadir of c0 # c1 # rest \<Rightarrow> Some c1 | _ \<Rightarrow> None)"

text \<open>
  A machine on which every path exists, seticore returns 0 and every removal succeeds,
  with three unprocessed directories of which one is preserved.
\<close>

definition disk :: machine where
  "disk =
     \<lparr>get_items = (\<lambda>name kind.
        if kind = ''unprocessed'' then [''/buf0ro/20230920T010203Z-sb1/Unknown/GUPPI'', ''/buf0ro/keep'', ''/scratch/x'']
        else [''/buf0ro/keep'']),
      path_exists = (\<lambda>p. True),
      timestamped_dir_from_filename = (\<lambda>p. ''20230920T010203Z-sb1''),
      get_n_proc = 0,
      seticore = (\<lambda>cmd. 0),
      rmtree = (\<lambda>p. True)\<rparr>"

text \<open>
  A function that raises on its first call, returns the empty string on its second and
  returns \<open>''ok''\<close> from then on; its world is the number of calls made so far.
\<close>

definition flaky :: "nat \<Rightarrow> string outcome \<times> nat" where
  "flaky c = (if c = 0 then (Raises ValueError, Suc c)
              else if c = 1 then (Returns [], Suc c)
              else (Returns ''ok'', Suc c))"

definition nonempty :: "string \<Rightarrow> bool" where
  "nonempty s = (s \<noteq> [])"

section \<open>Properties of retry\<close>

lemma outcome_of_0: "outcome_of f s 0 = fst (f s)"
  by (simp add: outcome_of_def)

lemma outcome_of_Suc: "outcome_of f s (Suc i) = outcome_of f (snd (f s)) i"
  by (simp add: outcome_of_def)

lemma retry_loop_calls_le: "calls (retry_loop k d t f s) \<le> k"
  by (induction k arbitrary: s) (auto simp: Let_def split: prod.splits outcome.splits)

text \<open>A call that raises or returns a falsy value costs one attempt and nothing else.\<close>

lemma retry_loop_fail_step:
  assumes "\<not> succeeds t (fst (f s))"
  shows "result (retry_loop (Suc k) d t f s) = result (retry_loop k d t f (snd (f s)))
       \<and> calls (retry_loop (Suc k) d t f s) = Suc (calls (retry_loop k d t f (snd (f s))))
       \<and> world (retry_loop (Suc k) d t f s) = world (retry_loop k d t f (snd (f s)))"
  using assms by (cases "f s"; cases "fst (f s)") (auto simp: Let_def)

lemma retry_loop_first_success:
  assumes "i < k" and "\<forall>j<i. \<not> succeeds t (outcome_of f s j)"
    and "outcome_of f s i = Returns v" and "t v"
  shows "result (retry_loop k d t f s) = Some v \<and> calls (retry_loop k d t f s) = Suc i
       \<and> world (retry_loop k d t f s) = world_before f s (Suc i)"
  using assms
proof (induction i arbitrary: k s)
  case 0
  then obtain k' where k: "k = Suc k'" by (cases k) auto
  from 0 show ?case
    unfolding k by (cases "f s") (auto simp: outcome_of_0)
next
  case (Suc i)
  then obtain k' where k: "k = Suc k'" by (cases k) auto
  from Suc.prems have fail: "\<not> succeeds t (fst (f s))"
    by (auto simp: outcome_of_0 dest: spec[of _ 0])
  have later: "\<forall>j<i. \<not> succeeds t (outcome_of f (snd (f s)) j)"
    using Suc.prems(2) by (auto simp: outcome_of_Suc dest: spec[of _ "Suc _"])
  have "result (retry_loop k' d t f (snd (f s))) = Some v
      \<and> calls (retry_loop k' d t f (snd (f s))) = Suc i
      \<and> world (retry_loop k' d t f (snd (f s))) = world_before f (snd (f s)) (Suc i)"
    using Suc.IH[of k' "snd (f s)"] Suc.prems later by (simp add: k outcome_of_Suc)
  then show ?case
    unfolding k using retry_loop_fail_step[of t f s k' d] fail by simp
qed

lemma retry_loop_all_fail:
  assumes "\<forall>j<k. \<not> succeeds t (outcome_of f s j)"
  shows "result (retry_loop k d t f s) = None \<and> calls (retry_loop k d t f s) = k"
  using assms
proof (induction k arbitrary: s)
  case 0
  then show ?case by simp
next
  case (Suc k)
  from Suc.prems have fail: "\<not> succeeds t (fst (f s))"
    by (auto simp: outcome_of_0 dest: spec[of _ 0])
  have later: "\<forall>j<k. \<not> succeeds t (outcome_of f (snd (f s)) j)"
    using Suc.prems by (auto simp: outcome_of_Suc dest: spec[of _ "Suc _"])
  show ?case
    using Suc.IH[OF later] retry_loop_fail_step[of t f s k d] fail by simp
qed

text \<open>
  Claim C6. \<open>retry\<close> is a total function: it returns a result and never raises,
  whatever the operation does. It calls the operation at most \<open>retries\<close> times. A call
  that raises or returns a falsy value is a failed attempt. When call number \<open>i\<close>
  (counting from 0, with \<open>i\<close> below the retry count) is the first to return a truthy
  value, that value is returned and exactly \<open>i + 1\<close> calls were made. When every one
  of the \<open>retries\<close> calls fails, the result is \<open>None\<close>. For an operation that fails
  twice and then succeeds, a retry count of at least 3 returns the success value and a
  retry count of 2 returns \<open>None\<close>.
\<close>

theorem retry_bounded_first_success:
  "calls (retry n d t f s) \<le> nat n
   \<and> (\<forall>i v. i < nat n \<and> (\<forall>j<i. \<not> succeeds t (outcome_of f s j))
            \<and> outcome_of f s i = Returns v \<and> t v
        \<longrightarrow> result (retry n d t f s) = Some v \<and> calls (retry n d t f s) = Suc i)
   \<and> ((\<forall>j<nat n. \<not> succeeds t (outcome_of f s j))
        \<longrightarrow> result (retry n d t f s) = None \<and> calls (retry n d t f s) = nat n)
   \<and> (\<not> succeeds t (outcome_of f s 0) \<and> \<not> succeeds t (outcome_of f s 1)
        \<and> outcome_of f s 2 = Returns v2 \<and> t v2
        \<longrightarrow> (3 \<le> n \<longrightarrow> result (retry n d t f s) = Some v2)
            \<and> result (retry 2 d t f s) = None)"
proof (intro conjI allI impI)
  show "calls (retry n d t f s) \<le> nat n"
    by (simp add: retry_def retry_loop_calls_le)
next
  fix i v
  assume h: "i < nat n \<and> (\<forall>j<i. \<not> succeeds t (outcome_of f s j))
            \<and> outcome_of f s i = Returns v \<and> t v"
  then show "result (retry n d t f s) = Some v" "calls (retry n d t f s) = Suc i"
    using retry_loop_first_success[of i "nat n" t f s v d] by (simp_all add: retry_def)
next
  assume "\<forall>j<nat n. \<not> succeeds t (outcome_of f s j)"
  then show "result (retry n d t f s) = None" "calls (retry n d t f s) = nat n"
    using retry_loop_all_fail[of "nat n" t f s d] by (simp_all add: retry_def)
next
  assume h: "\<not> succeeds t (outcome_of f s 0) \<and> \<not> succeeds t (outcome_of f s 1)
        \<and> outcome_of f s 2 = Returns v2 \<and> t v2"
  have two: "\<forall>j<2. \<not> succeeds t (outcome_of f s j)"
    using h by (auto simp: less_Suc_eq numeral_2_eq_2)
  show "result (retry 2 d t f s) = None"
    using retry_loop_all_fail[of 2 t f s d] two by (simp add: retry_def)
  assume "3 \<le> n"
  then have "2 < nat n" by simp
  then show "result (retry n d t f s) = Some v2"
    using retry_loop_first_success[of 2 "nat n" t f s v2 d] two h by (simp add: retry_def)
qed

theorem retry_flaky_witness:
  "\<not> succeeds nonempty (outcome_of flaky 0 0) \<and> \<not> succeeds nonempty (outcome_of flaky 0 1)
   \<and> outcome_of flaky 0 2 = Returns ''ok'' \<and> nonempty ''ok''
   \<and> result (retry 3 5 nonempty flaky 0) = Some ''ok''
   \<and> calls (retry 3 5 nonempty flaky 0) = 3
   \<and> result (retry 2 5 nonempty flaky 0) = None
   \<and> calls (retry 2 5 nonempty flaky 0) = 2"
proof -
  have o0: "outcome_of flaky 0 0 = Raises ValueError"
    by (simp add: outcome_of_def flaky_def)
  have o1: "outcome_of flaky 0 (Suc 0) = Returns []"
    by (simp add: outcome_of_def flaky_def)
  have o2: "outcome_of flaky 0 2 = Returns ''ok''"
    by (simp add: outcome_of_def flaky_def numeral_2_eq_2)
  have lt3: "\<forall>j<2. \<not> succeeds nonempty (outcome_of flaky 0 j)"
    using o0 o1 by (auto simp: less_Suc_eq numeral_2_eq_2 nonempty_def)
  note T3 = retry_bounded_first_success[of 3 5 nonempty flaky 0 "''ok''"]
  note T2 = retry_bounded_first_success[of 2 5 nonempty flaky 0 "''ok''"]
  have hyp: "\<not> succeeds nonempty (outcome_of flaky 0 0)
       \<and> \<not> succeeds nonempty (outcome_of flaky 0 1)
       \<and> outcome_of flaky 0 2 = Returns ''ok'' \<and> nonempty ''ok''"
    by (simp add: o0 o1 o2 nonempty_def)
  have r: "result (retry 3 5 nonempty flaky 0) = Some ''ok''
         \<and> result (retry 2 5 nonempty flaky 0) = None"
    using T3 hyp by simp
  have first: "2 < nat 3 \<and> (\<forall>j<2. \<not> succeeds nonempty (outcome_of flaky 0 j))
       \<and> outcome_of flaky 0 2 = Returns ''ok'' \<and> nonempty ''ok''"
    using lt3 hyp by simp
  have c3: "calls (retry 3 5 nonempty flaky 0) = Suc 2"
    using T3 first by blast
  have c2: "calls (retry 2 5 nonempty flaky 0) = nat 2"
    using T2 lt3 by simp
  show ?thesis
    using hyp r c3 c2 by simp
qed

section \<open>Sexagesimal coordinates\<close>

lemma ra_degrees_example:
  "ra_degrees ''9:18:05.28'' = Inr (2454496981289009 / 17592186044416)"
  by code_simp

lemma dec_degrees_example:
  "dec_degrees ''-12:05:48.9'' = Inr (- 6809958674041493 / 562949953421312)"
  by code_simp

text \<open>
  Claim C8, as stated, fails: the value that \<open>ra_degrees\<close> returns for
  \<open>9:18:05.28\<close> is not within 0.001 of 139.7720.
\<close>

theorem ra_degrees_not_139_772:
  "\<not> returns_within (1 / 1000) (139772 / 1000) (ra_degrees ''9:18:05.28'')"
  by (simp add: ra_degrees_example returns_within_def)

text \<open>
  Claim C8, amended. \<open>ra_degrees\<close> applied to \<open>9:18:05.28\<close> returns 139.522 degrees
  to within 0.001 (9 hours, 18 minutes and 5.28 seconds of right ascension at 15 degrees
  an hour), and \<open>dec_degrees\<close> applied to \<open>-12:05:48.9\<close> returns -12.09692 degrees to
  within 0.001.
\<close>

theorem ra_dec_degrees_values:
  "returns_within (1 / 1000) (139522 / 1000) (ra_degrees ''9:18:05.28'')
   \<and> returns_within (1 / 1000) (- 1209692 / 100000) (dec_degrees ''-12:05:48.9'')"
  by (simp add: ra_degrees_example dec_degrees_example returns_within_def)

section \<open>Properties of get\_pktstart\<close>

lemma seq_Inr: "seq (es, Inr v) k = (es @ fst (k v), snd (k v))"
  by (simp add: seq_def split: prod.splits)

lemma seq_Inl: "seq (es, Inl e) k = (es, Inl e)"
  by (simp add: seq_def)

lemmas run_simps = seq_Inr seq_Inl lift_def emit_def

lemma pkt_indices_of_filter:
  "pkt_indices_of r instances =
     map (\<lambda>i. the (get_pkt_idx r (status_key i))) (filter (reports r) instances)"
  by (induction instances) (auto simp: reports_def split: option.splits)

lemma excluded_not_reports: "excluded r i \<Longrightarrow> \<not> reports r i"
  by (auto simp: excluded_def reports_def get_pkt_idx_def Let_def split: option.splits)

lemma excluded_get_pkt_idx: "excluded r i \<Longrightarrow> get_pkt_idx r (status_key i) = None"
  by (auto simp: excluded_def get_pkt_idx_def Let_def)

lemma pkt_indices_of_drop_excluded:
  "pkt_indices_of r (filter (\<lambda>i. \<not> excluded r i) instances) = pkt_indices_of r instances"
proof -
  have "filter (reports r) (filter (\<lambda>i. \<not> excluded r i) instances) = filter (reports r) instances"
    by (induction instances) (auto dest: excluded_not_reports)
  then show ?thesis by (simp only: pkt_indices_of_filter)
qed

lemma pkt_indices_of_mset:
  "mset instances' = mset instances \<Longrightarrow>
   mset (pkt_indices_of r instances') = mset (pkt_indices_of r instances)"
  by (metis pkt_indices_of_filter mset_filter mset_map)

lemma asarray_int64_Inr:
  "asarray_int64 ss = Inr xs \<longleftrightarrow>
     (\<forall>s\<in>set ss. \<not> isl (to_int64 s)) \<and> xs = map (\<lambda>s. projr (to_int64 s)) ss"
proof (induction ss arbitrary: xs)
  case Nil
  then show ?case by auto
next
  case (Cons s ss)
  show ?case
  proof (cases "to_int64 s")
    case (Inl e)
    then show ?thesis by (simp add: and_then_def)
  next
    case (Inr i)
    show ?thesis
    proof (cases "asarray_int64 ss")
      case (Inl e)
      with Cons.IH[of "map (\<lambda>s. projr (to_int64 s)) ss"] Inr show ?thesis
        by (auto simp: and_then_def)
    next
      case r: (Inr ys)
      with Cons.IH[of ys] Inr show ?thesis
        by (auto simp: and_then_def)
    qed
  qed
qed

lemma asarray_int64_mset:
  assumes "asarray_int64 ss = Inr xs" and "mset ss' = mset ss"
  shows "\<exists>xs'. asarray_int64 ss' = Inr xs' \<and> mset xs' = mset xs"
proof -
  from assms(2) have s: "set ss' = set ss" by (rule mset_eq_setD)
  let ?xs' = "map (\<lambda>s. projr (to_int64 s)) ss'"
  have "asarray_int64 ss' = Inr ?xs'"
    using assms(1) s by (simp add: asarray_int64_Inr)
  moreover have "mset ?xs' = mset xs"
    using assms by (simp add: asarray_int64_Inr)
  ultimately show ?thesis by blast
qed

lemma np_max_Max:
  assumes "xs \<noteq> []"
  shows "np_max xs = Inr (Max (set xs))"
proof (cases xs)
  case Nil
  with assms show ?thesis by simp
next
  case (Cons a list)
  have "Max (set (a # list)) = fold max list a"
    by (rule Max.set_eq_fold)
  with Cons show ?thesis by simp
qed

lemma get_pktstart_computed:
  assumes "asarray_int64 (pkt_indices_of r instances) = Inr idxs" and "idxs \<noteq> []"
  shows "get_pktstart clk r instances margin array =
           checked_pktstart clk array (int64_add (Max (set idxs)) margin)"
proof -
  have "length idxs = length (pkt_indices_of r instances)"
    using assms(1) by (simp add: asarray_int64_Inr)
  with assms(2) have "pkt_indices_of r instances \<noteq> []" by auto
  then show ?thesis
    using assms by (simp add: get_pktstart_def checked_pktstart_def Let_def np_max_Max run_simps)
qed

lemma get_pktstart_none_reporting:
  "pkt_indices_of r instances = [] \<Longrightarrow> get_pktstart clk r instances margin array = ([], Inr None)"
  by (simp add: get_pktstart_def run_simps)

lemma get_pktstart_permuted:
  assumes "asarray_int64 (pkt_indices_of r instances) = Inr idxs"
    and "mset instances' = mset instances"
  shows "get_pktstart clk r instances' margin array = get_pktstart clk r instances margin array"
proof -
  obtain idxs' where i': "asarray_int64 (pkt_indices_of r instances') = Inr idxs'"
    and m: "mset idxs' = mset idxs"
    using asarray_int64_mset[OF assms(1) pkt_indices_of_mset[OF assms(2)]] by blast
  from m have s: "set idxs' = set idxs" by (rule mset_eq_setD)
  show ?thesis
  proof (cases "idxs = []")
    case True
    with m have "idxs' = []" by simp
    with True assms(1) i' show ?thesis
      by (simp add: asarray_int64_Inr get_pktstart_none_reporting)
  next
    case False
    with m have "idxs' \<noteq> []" by auto
    then show ?thesis
      using get_pktstart_computed[OF assms(1) False] get_pktstart_computed[OF i'] s by simp
  qed
qed

lemma three_indices:
  "asarray_int64 (pkt_indices_of r_three [''blpn0/0'', ''blpn1/0'', ''blpn2/0''])
     = Inr [100, 200, 150]"
  by code_simp

lemma three_indices_permuted:
  "asarray_int64 (pkt_indices_of r_three [''blpn2/0'', ''blpn0/0'', ''blpn1/0''])
     = Inr [150, 100, 200]"
  by code_simp

text \<open>
  Claim C1, as stated, fails. Three instances report the packet indices 100, 200 and 150
  and the margin is 50, but the wall-clock time of packet 250 is more than two minutes
  away from the current time: \<open>get_pktstart\<close> raises its alert and returns \<open>None\<close>,
  not 250.
\<close>

theorem pktstart_guard_counterexample:
  "asarray_int64 (pkt_indices_of r_three [''blpn0/0'', ''blpn1/0'', ''blpn2/0''])
     = Inr [100, 200, 150]
   \<and> get_pktstart (clock_at 370000001) r_three [''blpn0/0'', ''blpn1/0'', ''blpn2/0''] 50
        ''array_1''
     = ([Alert '':warning: `array_1` bad pktstart''], Inr None)"
  by code_simp

text \<open>
  Claim C1, amended. For every non-empty list of reported packet indices (64-bit
  integers) and every margin, whenever the wall-clock time of the maximum plus the margin
  is within two minutes of the current time, \<open>get_pktstart\<close> returns the packet index
  that is the 64-bit sum of the maximum of the reported indices and the margin, which is
  the maximum plus the margin whenever that fits in 64 bits; the result is the same for
  every order in which the instances are visited. In particular the indices 100, 150 and
  200 with margin 50 give 250.
\<close>

theorem pktstart_max_plus_margin:
  assumes "asarray_int64 (pkt_indices_of r instances) = Inr idxs" and "idxs \<noteq> []"
    and "mset instances' = mset instances"
    and "\<bar>start_datetime clk array (int64_add (Max (set idxs)) margin) - utcnow clk\<bar>
           \<le> two_minutes"
  shows "get_pktstart clk r instances margin array
           = ([], Inr (Some (pktstart_result clk array (int64_add (Max (set idxs)) margin))))
       \<and> get_pktstart clk r instances' margin array
           = get_pktstart clk r instances margin array
       \<and> (- (2 ^ 63) \<le> Max (set idxs) + margin \<and> Max (set idxs) + margin < 2 ^ 63
            \<longrightarrow> int64_add (Max (set idxs)) margin = Max (set idxs) + margin)"
proof (intro conjI impI)
  show "get_pktstart clk r instances margin array
           = ([], Inr (Some (pktstart_result clk array (int64_add (Max (set idxs)) margin))))"
    using get_pktstart_computed[OF assms(1,2), of clk margin array] assms(4)
    by (simp add: checked_pktstart_def pktstart_result_def start_datetime_def Let_def)
  show "get_pktstart clk r instances' margin array = get_pktstart clk r instances margin array"
    by (rule get_pktstart_permuted[OF assms(1,3)])
  assume "- (2 ^ 63) \<le> Max (set idxs) + margin \<and> Max (set idxs) + margin < 2 ^ 63"
  then show "int64_add (Max (set idxs)) margin = Max (set idxs) + margin"
    by (simp add: int64_add_def signed_take_bit_int_eq_self)
qed

theorem pktstart_max_plus_margin_witness:
  "asarray_int64 (pkt_indices_of r_three [''blpn0/0'', ''blpn1/0'', ''blpn2/0''])
     = Inr [100, 200, 150]
   \<and> mset [''blpn2/0'', ''blpn0/0'', ''blpn1/0''] = mset [''blpn0/0'', ''blpn1/0'', ''blpn2/0'']
   \<and> \<bar>start_datetime (clock_at 300000000) ''array_1'' 250 - utcnow (clock_at 300000000)\<bar>
        \<le> two_minutes
   \<and> get_pktstart (clock_at 300000000) r_three [''blpn0/0'', ''blpn1/0'', ''blpn2/0''] 50
        ''array_1''
     = ([], Inr (Some \<lparr>pktstart = 250, pktstart_str = ''250'', pktstart_ts = 250\<rparr>))
   \<and> get_pktstart (clock_at 300000000) r_three [''blpn2/0'', ''blpn0/0'', ''blpn1/0''] 50
        ''array_1''
     = ([], Inr (Some \<lparr>pktstart = 250, pktstart_str = ''250'', pktstart_ts = 250\<rparr>))"
proof -
  have m: "mset [''blpn2/0'', ''blpn0/0'', ''blpn1/0'']
             = mset [''blpn0/0'', ''blpn1/0'', ''blpn2/0'']"
    by simp
  have p: "int64_add (Max (set [100, 200, 150])) 50 = 250"
    by (simp add: int64_add_def signed_take_bit_int_eq_self)
  have ok: "\<bar>start_datetime (clock_at 300000000) ''array_1'' 250
              - utcnow (clock_at 300000000)\<bar> \<le> two_minutes"
    by (simp add: start_datetime_def clock_at_def two_minutes_def)
  have res: "pktstart_result (clock_at 300000000) ''array_1'' 250
               = \<lparr>pktstart = 250, pktstart_str = ''250'', pktstart_ts = 250\<rparr>"
    by code_simp
  have nonempty: "[100, 200, 150 :: int] \<noteq> []" by simp
  have ok': "\<bar>start_datetime (clock_at 300000000) ''array_1''
                 (int64_add (Max (set [100, 200, 150])) 50) - utcnow (clock_at 300000000)\<bar>
              \<le> two_minutes"
    using ok by (simp only: p)
  note T = pktstart_max_plus_margin[OF three_indices nonempty m ok']
  have "get_pktstart (clock_at 300000000) r_three [''blpn0/0'', ''blpn1/0'', ''blpn2/0''] 50
          ''array_1''
        = ([], Inr (Some \<lparr>pktstart = 250, pktstart_str = ''250'', pktstart_ts = 250\<rparr>))
      \<and> get_pktstart (clock_at 300000000) r_three [''blpn2/0'', ''blpn0/0'', ''blpn1/0''] 50
          ''array_1''
        = ([], Inr (Some \<lparr>pktstart = 250, pktstart_str = ''250'', pktstart_ts = 250\<rparr>))"
    using T by (simp only: p res)
  then show ?thesis
    using three_indices m ok by simp
qed

text \<open>
  Claim C2. An instance whose status hash is absent, or lacks \<open>NETSTAT\<close> or
  \<open>PKTIDX\<close>, or whose \<open>NETSTAT\<close> is \<open>idle\<close>, has no packet index; leaving such
  instances out of the list changes nothing in what \<open>get_pktstart\<close> does, so they are
  not errors. When all instances are excluded no packet index is collected, and when no
  packet index is collected \<open>get_pktstart\<close> returns \<open>None\<close>, with no alert and no
  start value.
\<close>

theorem non_reporting_instances_excluded:
  "(excluded r i \<longrightarrow> get_pkt_idx r (status_key i) = None)
   \<and> get_pktstart clk r (filter (\<lambda>i. \<not> excluded r i) instances) margin array
       = get_pktstart clk r instances margin array
   \<and> ((\<forall>i\<in>set instances. excluded r i) \<longrightarrow> pkt_indices_of r instances = [])
   \<and> (pkt_indices_of r instances = []
        \<longrightarrow> get_pktstart clk r instances margin array = ([], Inr None))"
proof (intro conjI impI)
  assume "excluded r i"
  then show "get_pkt_idx r (status_key i) = None"
    by (rule excluded_get_pkt_idx)
next
  show "get_pktstart clk r (filter (\<lambda>i. \<not> excluded r i) instances) margin array
       = get_pktstart clk r instances margin array"
    by (simp add: get_pktstart_def pkt_indices_of_drop_excluded)
next
  assume "\<forall>i\<in>set instances. excluded r i"
  then have "filter (reports r) instances = []"
    by (auto simp: filter_empty_conv dest: excluded_not_reports)
  then show "pkt_indices_of r instances = []"
    by (simp add: pkt_indices_of_filter)
next
  assume "pkt_indices_of r instances = []"
  then show "get_pktstart clk r instances margin array = ([], Inr None)"
    by (rule get_pktstart_none_reporting)
qed

lemma excluded_examples:
  "excluded r_three ''blpn3/0'' \<and> excluded r_three ''blpn4/0''
   \<and> excluded r_three ''blpn5/0'' \<and> excluded r_three ''blpn6/0''"
  by code_simp

theorem non_reporting_instances_excluded_witness:
  "excluded r_three ''blpn3/0'' \<and> excluded r_three ''blpn4/0''
   \<and> excluded r_three ''blpn5/0'' \<and> excluded r_three ''blpn6/0''
   \<and> get_pkt_idx r_three (status_key ''blpn3/0'') = None
   \<and> pkt_indices_of r_three [''blpn3/0'', ''blpn4/0'', ''blpn5/0'', ''blpn6/0''] = []
   \<and> get_pktstart (clock_at 0) r_three [''blpn3/0'', ''blpn4/0'', ''blpn5/0'', ''blpn6/0'']
        2048 ''array_1'' = ([], Inr None)"
proof -
  have all: "\<forall>i\<in>set [''blpn3/0'', ''blpn4/0'', ''blpn5/0'', ''blpn6/0'']. excluded r_three i"
    using excluded_examples by simp
  note T = non_reporting_instances_excluded[of r_three "''blpn3/0''" "clock_at 0"
      "[''blpn3/0'', ''blpn4/0'', ''blpn5/0'', ''blpn6/0'']" 2048 "''array_1''"]
  have a: "get_pkt_idx r_three (status_key ''blpn3/0'') = None"
    using T excluded_examples by blast
  have b: "pkt_indices_of r_three [''blpn3/0'', ''blpn4/0'', ''blpn5/0'', ''blpn6/0''] = []"
    using T all by blast
  have c: "get_pktstart (clock_at 0) r_three [''blpn3/0'', ''blpn4/0'', ''blpn5/0'', ''blpn6/0'']
        2048 ''array_1'' = ([], Inr None)"
    using T b by blast
  show ?thesis
    using excluded_examples a b c by blast
qed



section \<open>Properties of get\_primary\_target\<close>

lemma contains_sublist: "contains sub s = sublist sub s"
  by (induction s) (auto simp: sublist_Cons_right)

lemma strip_with_sublist: "sublist (strip_with p s) s"
proof -
  have "suffix (dropWhile p (rev (dropWhile p s))) (rev (dropWhile p s))"
    by (rule suffix_dropWhile)
  then have "prefix (strip_with p s) (dropWhile p s)"
    by (simp add: strip_with_def suffix_to_prefix)
  then have "sublist (strip_with p s) (dropWhile p s)"
    by (rule prefix_imp_sublist)
  moreover have "sublist (dropWhile p s) s"
    by (rule suffix_imp_sublist[OF suffix_dropWhile])
  ultimately show ?thesis
    by (rule sublist_order.order.trans)
qed

lemma contains_strip_chars:
  "contains sub (strip_chars cs s) \<Longrightarrow> contains sub s"
  unfolding contains_sublist strip_chars_def
  using strip_with_sublist sublist_order.order.trans by blast

lemma example_target_parsed:
  assumes "strings r (array @ '':target'') = Some example_target"
    and "floats r (array @ '':last-target'') = Some target_ts"
    and "floats r (array @ '':last-track-end'') = Some last_track_end"
    and "\<not> target_ts < fsub last_track_end 5"
  shows "get_primary_target r array 68 ''|''
           = Inr (Some \<lparr>target = ''J0918-1205'', ra = ''9:18:05.28'', dec = ''-12:05:48.9''\<rparr>)"
proof -
  have parts: "split_from '','' [] (strip_chars [CHR 0x27] example_target)
                 = [''J0918-1205 | Hyd A'', '' radec'', '' 9:18:05.28'', '' -12:05:48.9'']"
    by code_simp
  have has: "contains ''radec'' (strip_chars [CHR 0x27] example_target)"
    by code_simp
  have names: "split_from ''|'' [] ''J0918-1205 | Hyd A'' = [''J0918-1205 '', '' Hyd A'']"
    by code_simp
  have name: "slice0 68 (translate_punctuation (strip_chars '','' (strip ''J0918-1205 '')))
                = ''J0918-1205''"
    by code_simp
  have s2: "strip '' 9:18:05.28'' = ''9:18:05.28''" by code_simp
  have s3: "strip '' -12:05:48.9'' = ''-12:05:48.9''" by code_simp
  show ?thesis
    using assms
    by (simp add: get_primary_target_def get_float_def and_then_def Let_def has parts idx_def
          split_def names name s2 s3 del: split_from.simps)
qed

text \<open>
  Claim C7. With both timestamps set: for the stored target
  \<open>J0918-1205 | Hyd A, radec, 9:18:05.28, -12:05:48.9\<close>, length 68 and a target
  timestamp that is not stale, \<open>get_primary_target\<close> returns the name
  \<open>J0918-1205\<close>, the right ascension \<open>9:18:05.28\<close> and the declination
  \<open>-12:05:48.9\<close>; for any stored target that does not contain \<open>radec\<close> it returns
  \<open>None\<close>; and when the target timestamp is less than the end of the last track minus
  5 seconds (as the float subtraction computes it) it returns \<open>None\<close> whatever the
  target string is, set or not.
\<close>

theorem get_primary_target_cases:
  assumes "floats r (array @ '':last-target'') = Some target_ts"
    and "floats r (array @ '':last-track-end'') = Some last_track_end"
  shows "(strings r (array @ '':target'') = Some example_target
            \<and> \<not> target_ts < fsub last_track_end 5
          \<longrightarrow> get_primary_target r array 68 ''|''
                = Inr (Some \<lparr>target = ''J0918-1205'', ra = ''9:18:05.28'',
                               dec = ''-12:05:48.9''\<rparr>))
       \<and> (strings r (array @ '':target'') = Some target_val
            \<and> \<not> contains ''radec'' target_val
          \<longrightarrow> get_primary_target r array length_limit delimiter = Inr None)
       \<and> (target_ts < fsub last_track_end 5
          \<longrightarrow> get_primary_target r array length_limit delimiter = Inr None)"
proof (intro conjI impI)
  assume "strings r (array @ '':target'') = Some example_target
            \<and> \<not> target_ts < fsub last_track_end 5"
  then show "get_primary_target r array 68 ''|''
                = Inr (Some \<lparr>target = ''J0918-1205'', ra = ''9:18:05.28'',
                               dec = ''-12:05:48.9''\<rparr>)"
    using example_target_parsed[of r array target_ts last_track_end] assms by simp
next
  assume a: "strings r (array @ '':target'') = Some target_val
            \<and> \<not> contains ''radec'' target_val"
  then have "\<not> contains ''radec'' (strip_chars [CHR 0x27] target_val)"
    using contains_strip_chars by blast
  then show "get_primary_target r array length_limit delimiter = Inr None"
    using assms a by (simp add: get_primary_target_def get_float_def and_then_def Let_def)
next
  assume "target_ts < fsub last_track_end 5"
  then show "get_primary_target r array length_limit delimiter = Inr None"
    using assms by (simp add: get_primary_target_def get_float_def and_then_def Let_def)
qed

theorem get_primary_target_cases_witness:
  "floats r_target ''array_1:last-target'' = Some 1000
   \<and> floats r_target ''array_1:last-track-end'' = Some 1005
   \<and> strings r_target ''array_1:target'' = Some example_target
   \<and> \<not> (1000 :: rat) < fsub 1005 5
   \<and> get_primary_target r_target ''array_1'' 68 ''|''
       = Inr (Some \<lparr>target = ''J0918-1205'', ra = ''9:18:05.28'', dec = ''-12:05:48.9''\<rparr>)
   \<and> strings r_target ''array_2:target'' = Some ''azel, 10.0, 45.0''
   \<and> \<not> contains ''radec'' ''azel, 10.0, 45.0''
   \<and> get_primary_target r_target ''array_2'' 68 ''|'' = Inr None
   \<and> floats r_target ''array_3:last-target'' = Some 1000
   \<and> floats r_target ''array_3:last-track-end'' = Some 1006
   \<and> (1000 :: rat) < fsub 1006 5
   \<and> get_primary_target r_target ''array_3'' 68 ''|'' = Inr None"
proof -
  have f1: "floats r_target (''array_1'' @ '':last-target'') = Some 1000"
    "floats r_target (''array_1'' @ '':last-track-end'') = Some 1005"
    "strings r_target (''array_1'' @ '':target'') = Some example_target"
    by (simp_all add: r_target_def)
  have f2: "floats r_target (''array_2'' @ '':last-target'') = Some 1000"
    "floats r_target (''array_2'' @ '':last-track-end'') = Some 900"
    "strings r_target (''array_2'' @ '':target'') = Some ''azel, 10.0, 45.0''"
    by (simp_all add: r_target_def)
  have f3: "floats r_target (''array_3'' @ '':last-target'') = Some 1000"
    "floats r_target (''array_3'' @ '':last-track-end'') = Some 1006"
    by (simp_all add: r_target_def)
  have fresh: "\<not> (1000 :: rat) < fsub 1005 5" by code_simp
  have stale: "(1000 :: rat) < fsub 1006 5" by code_simp
  have noradec: "\<not> contains ''radec'' ''azel, 10.0, 45.0''" by code_simp
  have a: "get_primary_target r_target ''array_1'' 68 ''|''
       = Inr (Some \<lparr>target = ''J0918-1205'', ra = ''9:18:05.28'', dec = ''-12:05:48.9''\<rparr>)"
    using get_primary_target_cases[OF f1(1,2)] f1(3) fresh by blast
  have b: "get_primary_target r_target ''array_2'' 68 ''|'' = Inr None"
    using get_primary_target_cases[OF f2(1,2), of "''azel, 10.0, 45.0''"] f2(3) noradec by blast
  have c: "get_primary_target r_target ''array_3'' 68 ''|'' = Inr None"
    using get_primary_target_cases[OF f3(1,2)] stale by blast
  show ?thesis
    using f1 f2 f3 fresh stale noradec a b c by simp
qed

section \<open>Properties of get\_cals\<close>

lemma get_cals_writes:
  "fst (get_cals tel r array) = r
   \<or> (\<exists>ts. get_phaseup_time tel = Inr ts \<and> last_config r array \<le> ts \<and> last_cal r array < ts
          \<and> fst (get_cals tel r array) = set_last_cal r array ts
          \<and> snd (get_cals tel r array) = Inr (Some ''success''))"
  by (auto simp: get_cals_def last_config_def last_cal_def set_last_cal_def Let_def
           split: option.splits sum.splits)

lemma last_cal_set_last_cal: "last_cal (set_last_cal r array ts) array = ts"
  by (simp add: last_cal_def set_last_cal_def ts_or_zero_def)

lemma get_cals_monotone: "last_cal r array \<le> last_cal (fst (get_cals tel r array)) array"
  using get_cals_writes[of tel r array] by (auto simp: last_cal_set_last_cal)

lemma get_cals_trace_sorted:
  "sorted (map (\<lambda>r'. last_cal r' array) (r # get_cals_trace r array tels))"
proof (induction tels arbitrary: r)
  case Nil
  then show ?case by simp
next
  case (Cons tel tels)
  have "sorted (map (\<lambda>r'. last_cal r' array)
                  (fst (get_cals tel r array) # get_cals_trace (fst (get_cals tel r array)) array tels))"
    by (rule Cons.IH)
  then show ?case
    using get_cals_monotone[of r array tel] by (simp add: Let_def del: sorted_wrt.simps add: sorted2)
qed

text \<open>
  Claim C4. An invocation of \<open>get_cals\<close> either leaves the store as it is or writes
  one key, the last-cal record of the subarray: it writes only when the phase-up
  timestamp is at least the last-configuration timestamp and strictly greater than the
  stored last-cal timestamp (both read as 0 when not set), and the value written is the
  phase-up timestamp. So the stored last-cal timestamp does not decrease in one
  invocation, and along every sequence of invocations, whatever the order of the phase-up
  values, the stored timestamps are in non-decreasing order.
\<close>

theorem get_cals_last_cal_never_decreases:
  "(fst (get_cals tel r array) = r
    \<or> (\<exists>ts. get_phaseup_time tel = Inr ts \<and> last_config r array \<le> ts \<and> last_cal r array < ts
           \<and> fst (get_cals tel r array) = set_last_cal r array ts))
   \<and> last_cal r array \<le> last_cal (fst (get_cals tel r array)) array
   \<and> sorted (map (\<lambda>r'. last_cal r' array) (r # get_cals_trace r array tels))"
  using get_cals_writes[of tel r array] get_cals_monotone[of r array tel]
    get_cals_trace_sorted[of array r tels]
  by blast

text \<open>
  Phase-up values arriving out of order (10, 7, 3, 20) after a configuration at time 5:
  the stored timestamp goes from unset (read as 0) to 10, stays there twice and ends at
  20.
\<close>

lemma get_cals_trace_example:
  "map (\<lambda>r'. last_cal r' ''array_1'')
     (r_cal # get_cals_trace r_cal ''array_1'' [tel_at 10, tel_at 7, tel_at 3, tel_at 20])
   = [0, 10, 10, 10, 20]"
  by code_simp

theorem get_cals_last_cal_witness:
  "fst (get_cals (tel_at 10) r_cal ''array_1'') = set_last_cal r_cal ''array_1'' 10
   \<and> last_cal r_cal ''array_1'' \<le> last_cal (fst (get_cals (tel_at 10) r_cal ''array_1'')) ''array_1''
   \<and> sorted [0 :: rat, 10, 10, 10, 20]"
proof -
  note T = get_cals_last_cal_never_decreases[of "tel_at 10" r_cal "''array_1''"
      "[tel_at 10, tel_at 7, tel_at 3, tel_at 20]"]
  have changed: "last_cal (fst (get_cals (tel_at 10) r_cal ''array_1'')) ''array_1'' = 10"
    by code_simp
  have before: "last_cal r_cal ''array_1'' = 0"
    by code_simp
  have "fst (get_cals (tel_at 10) r_cal ''array_1'') \<noteq> r_cal"
    using changed before by auto
  moreover have "get_phaseup_time (tel_at 10) = Inr 10"
    by (simp add: tel_at_def)
  ultimately have a: "fst (get_cals (tel_at 10) r_cal ''array_1'') = set_last_cal r_cal ''array_1'' 10"
    using T by auto
  have b: "last_cal r_cal ''array_1''
             \<le> last_cal (fst (get_cals (tel_at 10) r_cal ''array_1'')) ''array_1''"
    using T by blast
  have c: "sorted [0 :: rat, 10, 10, 10, 20]"
    using T by (simp only: get_cals_trace_example)
  show ?thesis
    using a b c by blast
qed

section \<open>Properties of record\<close>

lemma group_keys_append: "group_keys (xs @ ys) = group_keys xs @ group_keys ys"
  by (induction xs rule: group_keys.induct) simp_all

lemma keys_of_seq:
  "keys_of (seq m k) = keys_of m @ (case snd m of Inl e \<Rightarrow> [] | Inr v \<Rightarrow> keys_of (k v))"
  by (cases m; cases "snd m")
     (auto simp: keys_of_def seq_def group_keys_append split: prod.splits)

lemma keys_of_lift: "keys_of (lift x) = []"
  by (simp add: keys_of_def lift_def)

lemma keys_of_emit_key: "keys_of (emit (SetGroupKey a key v)) = [key]"
  by (simp add: keys_of_def emit_def)

lemma keys_of_emit_other:
  "keys_of (emit (GatewayMsg g k x)) = []" "keys_of (emit (Alert msg)) = []"
  "keys_of (emit (StartTimer n what)) = []" "keys_of (emit (Annotate tag txt)) = []"
  "keys_of (emit (LPush key x)) = []" "keys_of (emit (Publish ch msg)) = []"
  by (simp_all add: keys_of_def emit_def)

lemma snd_emit: "snd (emit e) = Inr ()"
  by (simp add: emit_def)

lemma snd_lift: "snd (lift x) = x"
  by (simp add: lift_def)

lemma snd_seq: "snd (seq m k) = (case snd m of Inl e \<Rightarrow> Inl e | Inr v \<Rightarrow> snd (k v))"
  by (cases m; cases "snd m") (auto simp: seq_def split: prod.splits)

lemmas keys_simps = keys_of_seq keys_of_lift keys_of_emit_key keys_of_emit_other
  snd_emit snd_lift snd_seq

lemma set_datadir_keys: "keys_of (set_datadir array p ns sb) = []"
  by (induction ns) (simp_all add: keys_simps Let_def)

lemma set_datadir_snd: "snd (set_datadir array p ns sb) = Inr ()"
  by (induction ns) (simp_all add: keys_simps Let_def)

lemma add_unprocessed_keys: "keys_of (add_unprocessed recording p sb) = []"
  by (induction recording) (auto simp: keys_simps split: list.splits)

lemma request_targets_keys: "keys_of (request_targets srv r array ts tgt ra_d dec_d) = []"
  by (simp add: request_targets_def keys_simps split: sum.splits)

lemma get_pktstart_keys: "keys_of (get_pktstart c r instances margin array) = []"
  by (simp add: get_pktstart_def keys_simps Let_def split: sum.splits)

lemma publish_session_keys:
  "keys_of (publish_session srv r array instances td pd)
     \<in> {[''SRC_NAME''], [''SRC_NAME'', ''RA'', ''RA_STR''], published_keys}"
  by (simp add: publish_session_def keys_simps set_datadir_keys set_datadir_snd
        add_unprocessed_keys request_targets_keys Let_def published_keys_def
        del: set_datadir.simps split: sum.splits)

lemma record_subarray_keys:
  "keys_of (record_subarray srv r array instances)
     \<in> {[], [''DWELL''], [''DWELL'', ''SRC_NAME''], [''DWELL'', ''SRC_NAME'', ''RA'', ''RA_STR''],
        session_keys}"
proof -
  have "keys_of (publish_session srv r array instances td pd)
     \<in> {[''SRC_NAME''], [''SRC_NAME'', ''RA'', ''RA_STR''], published_keys}" for td pd
    by (rule publish_session_keys)
  then have *: "keys_of (publish_session srv r array instances td pd) = [''SRC_NAME'']
     \<or> keys_of (publish_session srv r array instances td pd) = [''SRC_NAME'', ''RA'', ''RA_STR'']
     \<or> keys_of (publish_session srv r array instances td pd) = published_keys" for td pd
    by blast
  show ?thesis
    unfolding record_subarray_def
    using *
    by (auto simp: keys_simps get_pktstart_keys session_keys_def published_keys_def
             split: option.splits sum.splits)
qed

text \<open>
  Claim C5. In every run of \<open>record\<close> the group keys published form a starting piece
  of the sequence DWELL, SRC\_NAME, RA, RA\_STR, DEC, DEC\_STR, OBSID, PKTSTART. So in
  every run in which PKTSTART is published, which a successful run must be, all the other
  session parameters have been published before it: the publications contain SRC\_NAME,
  RA, DEC, OBSID and PKTSTART in that relative order, and PKTSTART is the last of them.
\<close>

theorem pktstart_published_last:
  "prefix (group_keys (fst (record_subarray srv r array instances))) session_keys
   \<and> (''PKTSTART'' \<in> set (group_keys (fst (record_subarray srv r array instances)))
        \<longrightarrow> group_keys (fst (record_subarray srv r array instances)) = session_keys
            \<and> filter (\<lambda>k. k \<in> set [''SRC_NAME'', ''RA'', ''DEC'', ''OBSID'', ''PKTSTART''])
                 (group_keys (fst (record_subarray srv r array instances)))
               = [''SRC_NAME'', ''RA'', ''DEC'', ''OBSID'', ''PKTSTART'']
            \<and> last (group_keys (fst (record_subarray srv r array instances))) = ''PKTSTART'')"
proof -
  let ?ks = "group_keys (fst (record_subarray srv r array instances))"
  have cases: "?ks = [] \<or> ?ks = [''DWELL''] \<or> ?ks = [''DWELL'', ''SRC_NAME'']
      \<or> ?ks = [''DWELL'', ''SRC_NAME'', ''RA'', ''RA_STR''] \<or> ?ks = session_keys"
    using record_subarray_keys[of srv r array instances] by (simp add: keys_of_def)
  have p: "prefix ?ks session_keys"
    using cases by (auto simp: session_keys_def)
  have full: "?ks = session_keys" if "''PKTSTART'' \<in> set ?ks"
    using cases that by auto
  show ?thesis
    using p full by (auto simp: session_keys_def)
qed

text \<open>
  As the source stands, no run of \<open>record\<close> returns the set of instances: a run that
  has published PKTSTART goes on to \<open>request_targets\<close>, which raises.
\<close>

lemma record_never_returns_instances:
  "snd (record_subarray srv r array instances) \<noteq> Inr (Some s)"
  by (auto simp: record_subarray_def publish_session_def keys_simps Let_def
           split: option.splits sum.splits)

lemma record_example_run:
  "record_subarray (srv_at 2300000000) r_session ''array_1''
     [''blpn0/0'', ''blpn1/0'', ''blpn2/0'']
   = ([StartTimer 60 ''get_cals'', SetGroupKey ''array_1'' ''DWELL'' (IntV 290),
       GatewayMsg ''bluse:array_1-0///set'' ''DATADIR'' ''/buf0/2248-20230920-0001'',
       GatewayMsg ''bluse:array_1-1///set'' ''DATADIR'' ''/buf1/2248-20230920-0001'',
       SetGroupKey ''array_1'' ''SRC_NAME'' (StrV ''J0918-1205''),
       SetGroupKey ''array_1'' ''RA'' (FloatV (2454496981289009 / 17592186044416)),
       SetGroupKey ''array_1'' ''RA_STR'' (StrV ''9:18:05.28''),
       SetGroupKey ''array_1'' ''DEC'' (FloatV (- (6809958674041493 / 562949953421312))),
       SetGroupKey ''array_1'' ''DEC_STR'' (StrV ''-12:05:48.9''),
       SetGroupKey ''array_1'' ''OBSID'' (StrV ''MeerKAT:array_1:2248''),
       SetGroupKey ''array_1'' ''PKTSTART'' (StrV ''2248''),
       Annotate ''RECORD'' ''array_1, OBSID: MeerKAT:array_1:2248''],
      Inl TypeError)"
  by code_simp

theorem pktstart_published_last_witness:
  "''PKTSTART'' \<in> set (group_keys (fst (record_subarray (srv_at 2300000000) r_session
        ''array_1'' [''blpn0/0'', ''blpn1/0'', ''blpn2/0''])))
   \<and> group_keys (fst (record_subarray (srv_at 2300000000) r_session ''array_1''
        [''blpn0/0'', ''blpn1/0'', ''blpn2/0''])) = session_keys
   \<and> last (group_keys (fst (record_subarray (srv_at 2300000000) r_session ''array_1''
        [''blpn0/0'', ''blpn1/0'', ''blpn2/0'']))) = ''PKTSTART''"
proof -
  have mem: "''PKTSTART'' \<in> set (group_keys (fst (record_subarray (srv_at 2300000000)
        r_session ''array_1'' [''blpn0/0'', ''blpn1/0'', ''blpn2/0''])))"
    by (simp add: record_example_run)
  show ?thesis
    using pktstart_published_last[of "srv_at 2300000000" r_session "''array_1''"
        "[''blpn0/0'', ''blpn1/0'', ''blpn2/0'']"] mem
    by blast
qed

section \<open>Properties of the Coordinator\<close>

lemma map_of_map_handle:
  "map_of (map (\<lambda>(array, machine). (array, f machine)) d) k = map_option f (map_of d k)"
  by (induction d) auto

lemma on_message_return:
  assumes "is_return h message"
  shows "on_message h c message = Inr (processing_return h c message)"
  using assms
  by (auto simp: is_return_def on_message_def idx_def and_then_def
           split: option.splits list.splits)

lemma map_of_dict_set: "map_of (dict_set d k v) = (map_of d)(k \<mapsto> v)"
  by (induction d) (auto simp: fun_eq_iff)

lemma seed_machines_keys:
  "seed_machines h c as = Inr c' \<Longrightarrow>
   dom (map_of (recproc_machines c')) = dom (map_of (recproc_machines c)) \<union> set as"
proof (induction as arbitrary: c)
  case Nil
  then show ?case by simp
next
  case (Cons a as)
  then show ?case
    by (auto simp: map_of_dict_set split: option.splits)
qed

lemma listen_snoc:
  "listen h c (ms @ [m]) = and_then (listen h c ms) (\<lambda>c'. on_message h c' m)"
  by (induction ms arbitrary: c) (auto simp: and_then_def split: sum.splits)

text \<open>
  Claim C9. A message whose scope is RETURN is handed by the loop body to
  \<open>processing_return\<close>, which replaces the machine of every subarray in
  \<open>recproc_machines\<close> by what \<open>handle_event\<close> makes of it for this message: every
  subarray that has a machine receives the event, whatever instance reported. The loop
  over \<open>self.arrays\<close> in \<open>start\<close> gives every configured subarray such a machine, and
  in the loop over the messages each RETURN message that arrives is dispatched in this
  way to the machines as the earlier messages left them.
\<close>

theorem return_dispatched_to_every_subarray:
  assumes "is_return h message"
  shows "on_message h c message = Inr (processing_return h c message)
       \<and> recproc_machines (processing_return h c message)
           = map (\<lambda>(array, machine). (array, handle_recproc h machine (Message message)))
               (recproc_machines c)
       \<and> (\<forall>array machine. map_of (recproc_machines c) array = Some machine
             \<longrightarrow> map_of (recproc_machines (processing_return h c message)) array
                   = Some (handle_recproc h machine (Message message)))
       \<and> (\<forall>c0 c1. seed_machines h c0 (arrays c0) = Inr c1
             \<longrightarrow> (\<forall>array\<in>set (arrays c0). \<exists>machine.
                     map_of (recproc_machines c1) array = Some machine))
       \<and> (\<forall>before c1. listen h c before = Inr c1
             \<longrightarrow> listen h c (before @ [message]) = Inr (processing_return h c1 message))"
proof (intro conjI allI impI ballI)
  show "on_message h c message = Inr (processing_return h c message)"
    by (rule on_message_return[OF assms])
next
  show "recproc_machines (processing_return h c message)
           = map (\<lambda>(array, machine). (array, handle_recproc h machine (Message message)))
               (recproc_machines c)"
    by (simp add: processing_return_def)
next
  fix array machine
  assume "map_of (recproc_machines c) array = Some machine"
  then show "map_of (recproc_machines (processing_return h c message)) array
                   = Some (handle_recproc h machine (Message message))"
    by (simp add: processing_return_def map_of_map_handle)
next
  fix c0 c1 :: "('b, 'c) coordinator" and array
  assume "seed_machines h c0 (arrays c0) = Inr c1" and "array \<in> set (arrays c0)"
  then have "array \<in> dom (map_of (recproc_machines c1))"
    using seed_machines_keys[of h c0 "arrays c0" c1] by blast
  then show "\<exists>machine. map_of (recproc_machines c1) array = Some machine"
    by blast
next
  fix before c1
  assume "listen h c before = Inr c1"
  then show "listen h c (before @ [message]) = Inr (processing_return h c1 message)"
    by (simp add: listen_snoc and_then_def on_message_return[OF assms])
qed

text \<open>
  An object that only \<open>__init__\<close> has set up lacks \<open>self.red\<close>: \<open>start\<close> raises
  AttributeError at its first statement.
\<close>

lemma start_after_init:
  "start h (init config_arrays config_instances) messages = Inl AttributeError"
  by (simp add: start_def init_def)

lemma two_arrays_start:
  "start logging_machinery two_arrays [''array_1:record'', ''RETURN:blpn0/0:0'']
   = Inr (two_arrays_seeded
           \<lparr>freesubscribed_machines := [(''array_1'', [Event ''record'']), (''array_2'', [])],
            recproc_machines :=
              [(''array_1'', [Event ''record'', Message ''RETURN:blpn0/0:0'']),
               (''array_2'', [Message ''RETURN:blpn0/0:0''])]\<rparr>)"
  by code_simp

theorem return_dispatched_witness:
  "is_return logging_machinery ''RETURN:blpn0/0:0''
   \<and> seed_machines logging_machinery two_arrays (arrays two_arrays) = Inr two_arrays_seeded
   \<and> on_message logging_machinery two_arrays_seeded ''RETURN:blpn0/0:0''
       = Inr (processing_return logging_machinery two_arrays_seeded ''RETURN:blpn0/0:0'')
   \<and> recproc_machines (processing_return logging_machinery two_arrays_seeded
         ''RETURN:blpn0/0:0'')
       = [(''array_1'', [Message ''RETURN:blpn0/0:0'']),
          (''array_2'', [Message ''RETURN:blpn0/0:0''])]"
proof -
  have ret: "is_return logging_machinery ''RETURN:blpn0/0:0''"
    by code_simp
  have seeded: "seed_machines logging_machinery two_arrays (arrays two_arrays)
                  = Inr two_arrays_seeded"
    by code_simp
  note T = return_dispatched_to_every_subarray[OF ret, of two_arrays_seeded]
  have a: "on_message logging_machinery two_arrays_seeded ''RETURN:blpn0/0:0''
       = Inr (processing_return logging_machinery two_arrays_seeded ''RETURN:blpn0/0:0'')"
    using T by blast
  have "recproc_machines (processing_return logging_machinery two_arrays_seeded
          ''RETURN:blpn0/0:0'')
        = map (\<lambda>(array, machine).
                 (array, handle_recproc logging_machinery machine (Message ''RETURN:blpn0/0:0'')))
            (recproc_machines two_arrays_seeded)"
    using T by blast
  then have b: "recproc_machines (processing_return logging_machinery two_arrays_seeded
         ''RETURN:blpn0/0:0'')
       = [(''array_1'', [Message ''RETURN:blpn0/0:0'']),
          (''array_2'', [Message ''RETURN:blpn0/0:0''])]"
    by (simp add: two_arrays_seeded_def logging_machinery_def)
  show ?thesis
    using ret seeded a b by blast
qed

section \<open>Properties of the processing step\<close>

text \<open>
  As \<open>make_outputdir\<close> always fails, \<open>run_seticore\<close> returns 2 before it starts
  seticore.
\<close>

lemma run_seticore_2: "run_seticore w bfrdir inputdir tsdir part = 2"
  by (simp add: run_seticore_def make_outputdir_def)



lemma rm_datadir_removes:
  "rm_datadir w datadir n = Inr (ok, paths) \<Longrightarrow> p \<in> set paths \<Longrightarrow>
   second_component datadir = Some ''buf0ro''
   \<and> (\<exists>datadir_id. idx (split_from ''/'' [] datadir) 2 = Inr datadir_id
          \<and> p = ''/buf'' @ n @ ''/'' @ datadir_id)"
  by (auto simp: rm_datadir_def second_component_def idx_def and_then_def Let_def
           split: list.splits if_splits simp del: split_from.simps)

text \<open>
  Every removal of the clean-up loop is made by \<open>rm_datadir\<close> for a directory of
  \<open>to_clean\<close> whose seticore return code is at most 1. In \<open>process\<close>,
  \<open>to_clean\<close> holds no preserved directory, and all return codes are 2, so that
  \<open>process\<close> removes nothing at all.
\<close>

lemma clean_up_removals:
  "(datadir, p) \<in> set (fst (clean_up w results n to_clean m)) \<Longrightarrow>
   datadir \<in> set to_clean
   \<and> (\<exists>res. dict_get results datadir = Inr res \<and> res \<le> 1)
   \<and> (\<exists>ok paths. rm_datadir w datadir n = Inr (ok, paths) \<and> p \<in> set paths)"
proof (induction to_clean arbitrary: m)
  case Nil
  then show ?case by simp
next
  case (Cons d to_clean)
  show ?case
  proof (cases "dict_get results d")
    case (Inl e)
    with Cons.prems show ?thesis by simp
  next
    case (Inr res)
    show ?thesis
    proof (cases "res > 1")
      case True
      with Inr Cons.prems Cons.IH[of m] show ?thesis by auto
    next
      case False
      show ?thesis
      proof (cases "rm_datadir w d n")
        case (Inl e)
        with Inr False Cons.prems show ?thesis by simp
      next
        case rm: (Inr okp)
        obtain ok paths where okp: "okp = (ok, paths)" by (cases okp)
        let ?res = "if \<not> ok then 2 else res"
        let ?m = "if ?res > m then ?res else m"
        from Cons.prems Inr False rm okp
        have "(datadir, p) \<in> set (map (\<lambda>p. (d, p)) paths)
              \<or> (datadir, p) \<in> set (fst (clean_up w results n to_clean ?m))"
          by (auto simp: Let_def split: prod.splits)
        then show ?thesis
        proof
          assume "(datadir, p) \<in> set (map (\<lambda>p. (d, p)) paths)"
          then have "datadir = d" "p \<in> set paths" by auto
          with Inr False rm okp show ?thesis by auto
        next
          assume "(datadir, p) \<in> set (fst (clean_up w results n to_clean ?m))"
          from Cons.IH[OF this] show ?thesis by auto
        qed
      qed
    qed
  qed
qed

lemma run_all_results: "dict_get (run_all w unprocessed) datadir = Inr res \<Longrightarrow> res = 2"
  by (induction unprocessed)
     (auto simp: dict_get_def run_seticore_2 Let_def split: if_splits option.splits)

lemma process_removes_nothing: "fst (process w host n) = []"
proof -
  have "fst (clean_up w (run_all w u) n tc m) = []" for u tc m
  proof (rule ccontr)
    assume "fst (clean_up w (run_all w u) n tc m) \<noteq> []"
    then obtain d p where "(d, p) \<in> set (fst (clean_up w (run_all w u) n tc m))"
      by (cases "fst (clean_up w (run_all w u) n tc m)") auto
    from clean_up_removals[OF this] obtain res where
      "dict_get (run_all w u) d = Inr res" "res \<le> 1" by blast
    with run_all_results[of w u d res] show False by simp
  qed
  then have "fst (clean_up w (run_all w u) n tc 0) = []" for u tc
    by blast
  then show ?thesis
    by (simp add: process_def Let_def split: prod.splits sum.splits) (metis fst_conv)
qed

lemma to_clean_not_preserved:
  "datadir \<in> set (filter (\<lambda>datadir. datadir \<notin> set preserved) unprocessed)
   \<Longrightarrow> datadir \<in> set unprocessed \<and> datadir \<notin> set preserved"
  by simp


text \<open>
  The clean-up loop at work, with return codes other than those of \<open>run_seticore\<close>:
  the directories with return codes 0 and 1 are removed from the buffer of instance 1,
  the one with return code 2 is left alone, and the last one is refused by
  \<open>rm_datadir\<close>, which makes the final return code 2.
\<close>

lemma clean_up_example:
  "clean_up disk [(''/buf0ro/a/x'', 0), (''/buf0ro/b'', 1), (''/buf0ro/c'', 2), (''/b/c'', 0)]
     ''1'' [''/buf0ro/a/x'', ''/buf0ro/b'', ''/buf0ro/c'', ''/b/c''] 0
   = ([(''/buf0ro/a/x'', ''/buf1/a''), (''/buf0ro/b'', ''/buf1/b'')], Inr 2)"
  by code_simp

lemma process_example:
  "process disk ''blpn0'' ''0'' = ([], Inr (Publish ''proc_result'' ''RETURN:f{host}/{n}:0''))"
  by code_simp

end
